theory Spec2Isabelle
  imports Main
begin


section \<open>Data model\<close>

text \<open>
  The repository is one notebook, \<^verbatim>\<open>create_feature_store.ipynb\<close>. Its code cells are
  embedded below: the two functions it defines (\<^verbatim>\<open>cast_object_to_string\<close> and
  \<^verbatim>\<open>wait_for_feature_group_creation_complete\<close>) and the top-level statements of the
  cells, run from top to bottom.

  A pandas dataframe is an ordered list of labelled columns over a row index. The
  notebook's only dataframe comes from \<^verbatim>\<open>pd.read_csv\<close> without an index column, so the
  row index is the default range index and a column is the list of its values by position;
  \<open>nrows\<close> is the length of that index (what \<^verbatim>\<open>len(data_frame)\<close> returns).
  pandas admits several columns under one label, so the columns are an association list.
\<close>

type_synonym label = string

datatype dtype = Object | StringDtype | Float64 | Int64 | Bool | Datetime64 | Category

text \<open>
  A cell holds a Python object. Strings are the one kind of object the notebook's code
  distinguishes; every other object (numbers, \<^verbatim>\<open>None\<close>, NaN, timestamps, ...) is opaque,
  of type \<open>'o\<close>.
\<close>

datatype 'o pyval = PyStr string | PyObj 'o

record 'o series =
  dtype :: dtype
  vals :: "'o pyval list"

record 'o dataframe =
  nrows :: nat
  columns :: "(label \<times> 'o series) list"

text \<open>
  The builtins and pandas conversions that the notebook calls on cell values are not code of
  the repository; they are parameters of the model:
  \<^item> \<open>str_obj\<close>: Python's \<^verbatim>\<open>str(x)\<close> on an object that is not a string;
  \<^item> \<open>string_obj\<close>: what \<^verbatim>\<open>astype("string")\<close> stores for an element that is not a
    string (its string form, or the missing-value marker);
  \<^item> \<open>float64_of_int\<close>: the float64 that \<^verbatim>\<open>pd.Series(..., dtype="float64")\<close> stores for
    a Python integer.
\<close>

record 'o pylib =
  str_obj :: "'o \<Rightarrow> string"
  string_obj :: "'o \<Rightarrow> 'o pyval"
  float64_of_int :: "int \<Rightarrow> 'o"

text \<open>
  Exceptions. \<open>RuntimeError\<close> is the one exception the notebook's own code raises.
  \<open>KeyError\<close> and \<open>ValueError\<close> are raised inside pandas (a label that is not a column;
  the truth value of a several-element Series). \<open>LibraryError\<close> is any exception raised by
  a call into boto3, the SageMaker SDK or \<^verbatim>\<open>read_csv\<close>.
\<close>

datatype 'e error = RuntimeError string | KeyError | ValueError | LibraryError 'e

section \<open>Casting object columns to string\<close>

text \<open>\<^verbatim>\<open>str(x)\<close>: a string is its own string form.\<close>

fun py_str :: "'o pylib \<Rightarrow> 'o pyval \<Rightarrow> string" where
  "py_str L (PyStr s) = s"
| "py_str L (PyObj x) = str_obj L x"

text \<open>
  \<^verbatim>\<open>series.astype("str")\<close>: every element is replaced by its \<^verbatim>\<open>str\<close>; the result is a
  column of Python strings, of dtype object.
\<close>

definition astype_str :: "'o pylib \<Rightarrow> 'o series \<Rightarrow> 'o series" where
  "astype_str L s = \<lparr>dtype = Object, vals = map (\<lambda>v. PyStr (py_str L v)) (vals s)\<rparr>"

text \<open>
  \<^verbatim>\<open>series.astype("string")\<close>: the column gets pandas' string dtype; an element that is a
  string is kept, any other element is converted by the library.
\<close>

fun to_string_elem :: "'o pylib \<Rightarrow> 'o pyval \<Rightarrow> 'o pyval" where
  "to_string_elem L (PyStr s) = PyStr s"
| "to_string_elem L (PyObj x) = string_obj L x"

definition astype_string :: "'o pylib \<Rightarrow> 'o series \<Rightarrow> 'o series" where
  "astype_string L s = \<lparr>dtype = StringDtype, vals = map (to_string_elem L) (vals s)\<rparr>"

text \<open>All columns carrying a label, in column order.\<close>

definition columns_labelled :: "'o dataframe \<Rightarrow> label \<Rightarrow> 'o series list" where
  "columns_labelled df l = map snd (filter (\<lambda>c. fst c = l) (columns df))"

text \<open>
  \<^verbatim>\<open>data_frame[label] = series\<close>: when the label is already a column label, the column(s)
  under it are replaced where they stand; otherwise the series is added as the last column.
  (The assigned series has the frame's own range index, so no row is realigned.)
\<close>

definition setitem :: "'o dataframe \<Rightarrow> label \<Rightarrow> 'o series \<Rightarrow> 'o dataframe" where
  "setitem df l s =
     (if l \<in> set (map fst (columns df))
      then df\<lparr>columns := map (\<lambda>c. if fst c = l then (l, s) else c) (columns df)\<rparr>
      else df\<lparr>columns := columns df @ [(l, s)]\<rparr>)"

text \<open>
  \<^verbatim>\<open>
  def cast_object_to_string(data_frame):
      for label in data_frame.columns:
          if data_frame.dtypes[label] == 'object':
              data_frame[label] = data_frame[label].astype("str").astype("string")
  \<close>
  The loop runs over the column labels as they are when it starts (assignments to existing
  labels do not change them). \<^verbatim>\<open>data_frame.dtypes[label]\<close> is one dtype when exactly one
  column carries the label; when several do it is a Series of dtypes, whose comparison with
  \<^verbatim>\<open>'object'\<close> is a Series of booleans, and taking its truth value in the \<^verbatim>\<open>if\<close> raises
  \<open>ValueError\<close>. The function mutates the frame in place and returns nothing; the model
  returns the frame as the call leaves it, together with the exception when it raised
  (\<open>None\<close> when it returned).
\<close>

fun cast_loop :: "'o pylib \<Rightarrow> label list \<Rightarrow> 'o dataframe \<Rightarrow> 'o dataframe \<times> 'e error option" where
  "cast_loop L [] df = (df, None)"
| "cast_loop L (l # ls) df =
     (case columns_labelled df l of
        [] \<Rightarrow> (df, Some KeyError)
      | [s] \<Rightarrow>
          if dtype s = Object
          then cast_loop L ls (setitem df l (astype_string L (astype_str L s)))
          else cast_loop L ls df
      | _ \<Rightarrow> (df, Some ValueError))"

definition cast_object_to_string :: "'o pylib \<Rightarrow> 'o dataframe \<Rightarrow> 'o dataframe \<times> 'e error option" where
  "cast_object_to_string L df = cast_loop L (map fst (columns df)) df"

text \<open>The string form of a column: dtype string, every value the \<^verbatim>\<open>str\<close> of the original
  one.\<close>

definition string_form :: "'o pylib \<Rightarrow> 'o series \<Rightarrow> 'o series" where
  "string_form L s = \<lparr>dtype = StringDtype, vals = map (\<lambda>v. PyStr (py_str L v)) (vals s)\<rparr>"

text \<open>What one pass over the labels \<open>ls\<close> does to each column.\<close>

definition cast_col :: "'o pylib \<Rightarrow> label set \<Rightarrow> label \<times> 'o series \<Rightarrow> label \<times> 'o series" where
  "cast_col L A c = (if fst c \<in> A \<and> dtype (snd c) = Object then (fst c, string_form L (snd c)) else c)"

section \<open>Decimal strings\<close>

text \<open>\<^verbatim>\<open>str(n)\<close> on a Python integer: its decimal digits, with a minus sign when negative.\<close>

fun str_nat :: "nat \<Rightarrow> string" where
  "str_nat n = (if n < 10 then [''0123456789'' ! n] else str_nat (n div 10) @ [''0123456789'' ! (n mod 10)])"

declare str_nat.simps [simp del]

definition str_int :: "int \<Rightarrow> string" where
  "str_int i = (if i < 0 then CHR ''-'' # str_nat (nat (- i)) else str_nat (nat i))"

section \<open>Example inputs\<close>

text \<open>A small universe of non-string objects and their library conversions, and a frame
  with an object column, a float column and a string column, used to instantiate the
  theorems below.\<close>

datatype example_obj = ONone | ONaN | OInt int | OFloat int

fun example_str :: "example_obj \<Rightarrow> string" where
  "example_str ONone = ''None''"
| "example_str ONaN = ''nan''"
| "example_str (OInt i) = str_int i"
| "example_str (OFloat i) = str_int i @ ''.0''"

definition example_lib :: "example_obj pylib" where
  "example_lib = \<lparr>str_obj = example_str,
     string_obj = (\<lambda>x. case x of ONone \<Rightarrow> PyObj ONone | ONaN \<Rightarrow> PyObj ONone | _ \<Rightarrow> PyStr (example_str x)),
     float64_of_int = OFloat\<rparr>"

definition example_frame :: "example_obj dataframe" where
  "example_frame = \<lparr>nrows = 2, columns =
     [(''merchant'', \<lparr>dtype = Object, vals = [PyStr ''acme'', PyObj ONaN]\<rparr>),
      (''amount'', \<lparr>dtype = Float64, vals = [PyObj (OFloat 15), PyObj (OFloat 7)]\<rparr>),
      (''event_time'', \<lparr>dtype = Object, vals = [PyStr ''2021-08-24'', PyObj (OInt 5)]\<rparr>)]\<rparr>"

definition example_small_frame :: "example_obj dataframe" where
  "example_small_frame = \<lparr>nrows = 2, columns =
     [(''merchant'', \<lparr>dtype = Object, vals = [PyStr ''acme'', PyObj ONaN]\<rparr>),
      (''amount'', \<lparr>dtype = Float64, vals = [PyObj (OFloat 15), PyObj (OFloat 7)]\<rparr>)]\<rparr>"

section \<open>The event-time column\<close>

text \<open>
  \<^verbatim>\<open>
  event_time_feature_name = "event_time"
  transaction_data[event_time_feature_name] =
      pd.Series([current_time_sec]*len(transaction_data), dtype="float64")
  \<close>
  \<^verbatim>\<open>current_time_sec\<close> is \<^verbatim>\<open>int(round(time.time()))\<close>, read once at the top of the cell;
  it is the argument \<open>t\<close> here.
\<close>

definition event_time_feature_name :: string where
  "event_time_feature_name = ''event_time''"

definition event_time_series :: "'o pylib \<Rightarrow> int \<Rightarrow> nat \<Rightarrow> 'o series" where
  "event_time_series L t n = \<lparr>dtype = Float64, vals = map (\<lambda>i. PyObj (float64_of_int L i)) (replicate n t)\<rparr>"

definition set_event_time :: "'o pylib \<Rightarrow> int \<Rightarrow> 'o dataframe \<Rightarrow> 'o dataframe" where
  "set_event_time L t df = setitem df event_time_feature_name (event_time_series L t (nrows df))"

section \<open>Calls out of the notebook\<close>

text \<open>
  Every call the notebook makes into boto3, the SageMaker SDK or pandas' reader, and every
  line it prints or value it displays, is an event; a run of the notebook produces the list
  of its events in the order they happen. A response of the service (a Python dict) is an
  association list from keys to string values, and \<^verbatim>\<open>d.get(k)\<close> is \<open>map_of d k\<close>.

  The arguments of the events are the arguments of the calls:
  \<^item> \<open>S3GetObject bucket key\<close>: \<^verbatim>\<open>s3_client.get_object(Bucket=..., Key=...)\<close> and the
    read of its body;
  \<^item> \<open>ReadCsv bytes\<close>: \<^verbatim>\<open>pd.read_csv\<close> on those bytes;
  \<^item> \<open>LoadFeatureDefinitions name frame\<close>, \<open>Describe name k\<close> (the \<open>k\<close>-th
    \<^verbatim>\<open>describe()\<close> of the run, counted from 0), \<open>Ingest name frame max_workers wait\<close>:
    methods of the \<^verbatim>\<open>FeatureGroup\<close> object of that name;
  \<^item> \<open>Create name s3_uri record_identifier_name event_time_feature_name role_arn
    enable_online_store\<close>: \<^verbatim>\<open>FeatureGroup.create\<close> with these keyword arguments;
  \<^item> \<open>GetRecord FeatureGroupName RecordIdentifierValueAsString\<close>;
  \<^item> \<open>Sleep seconds\<close>, \<open>Print line\<close>, and \<open>Display\<close> of the value of a cell's last
    expression.
\<close>

type_synonym response = "(string \<times> string) list"

datatype 'o shown =
    ShownFrame "'o dataframe"
  | ShownDescription response
  | ShownIngestionManager
  | ShownRecord response

datatype 'o event =
    NewSession
  | DefaultBucket
  | GetExecutionRole
  | S3GetObject string string
  | ReadCsv string
  | LoadFeatureDefinitions string "'o dataframe"
  | Create string string string string string bool
  | Describe string nat
  | Ingest string "'o dataframe" nat bool
  | GetRecord string string
  | Sleep nat
  | Print string
  | Display "'o shown"

text \<open>
  The outcome of running a piece of the notebook: \<open>None\<close> when it never returns, otherwise
  the events it produced and either the exception that ended it or its value.
\<close>

type_synonym ('o, 'e, 'a) outcome = "('o event list \<times> ('e error + 'a)) option"

section \<open>Waiting for the feature group\<close>

text \<open>
  \<^verbatim>\<open>
  def wait_for_feature_group_creation_complete(feature_group):
      status = feature_group.describe().get("FeatureGroupStatus")
      while status == "Creating":
          print("Waiting for Feature Group Creation")
          time.sleep(5)
          status = feature_group.describe().get("FeatureGroupStatus")
      if status != "Created":
          raise RuntimeError(f"Failed to create feature group {feature_group.name}")
      print(f"FeatureGroup {feature_group.name} successfully created.")
  \<close>
  The feature group is given by its \<open>name\<close> and by \<open>describe\<close>, where \<open>describe k\<close> is what
  the \<open>k\<close>-th call of \<^verbatim>\<open>feature_group.describe()\<close> does: raise (\<open>Inl\<close>) or return a
  response. \<open>status\<close> is \<open>None\<close> when the response has no \<^verbatim>\<open>FeatureGroupStatus\<close>.

  \<open>wait_loop\<close> is the \<^verbatim>\<open>while\<close> loop, entered with \<open>k\<close> calls of \<open>describe\<close> made, the
  events \<open>tr\<close> produced and the last status read; it returns the number of calls made and
  the status that ended it. The loop has no bound, so it is a partial function.
\<close>

definition poll_round :: "string \<Rightarrow> nat \<Rightarrow> 'o event list" where
  "poll_round name k = [Print ''Waiting for Feature Group Creation'', Sleep 5, Describe name k]"

partial_function (option) wait_loop ::
  "(nat \<Rightarrow> 'e + response) \<Rightarrow> string \<Rightarrow> nat \<Rightarrow> 'o event list \<Rightarrow> string option
     \<Rightarrow> ('o event list \<times> ('e error + nat \<times> string option)) option" where
  "wait_loop describe name k tr status =
     (if status = Some ''Creating''
      then (case describe k of
              Inl e \<Rightarrow> Some (tr @ poll_round name k, Inl (LibraryError e))
            | Inr d \<Rightarrow> wait_loop describe name (Suc k) (tr @ poll_round name k)
                        (map_of d ''FeatureGroupStatus''))
      else Some (tr, Inr (k, status)))"

declare wait_loop.simps [code]

text \<open>The function returns nothing; the model returns the number of \<^verbatim>\<open>describe()\<close> calls
  it made, which numbers the next such call of the run.\<close>

definition wait_for_feature_group_creation_complete ::
  "(nat \<Rightarrow> 'e + response) \<Rightarrow> string \<Rightarrow> ('o, 'e, nat) outcome" where
  "wait_for_feature_group_creation_complete describe name =
     (case describe 0 of
        Inl e \<Rightarrow> Some ([Describe name 0], Inl (LibraryError e))
      | Inr d \<Rightarrow>
          (case wait_loop describe name 1 [Describe name 0] (map_of d ''FeatureGroupStatus'') of
             None \<Rightarrow> None
           | Some (tr, Inl err) \<Rightarrow> Some (tr, Inl err)
           | Some (tr, Inr (k, status)) \<Rightarrow>
               if status \<noteq> Some ''Created''
               then Some (tr, Inl (RuntimeError (''Failed to create feature group '' @ name)))
               else Some (tr @ [Print (''FeatureGroup '' @ name @ '' successfully created.'')], Inr k)))"

text \<open>The \<^verbatim>\<open>FeatureGroupStatus\<close> read at the \<open>k\<close>-th poll, when the call returns.\<close>

definition polled_status :: "(nat \<Rightarrow> 'e + response) \<Rightarrow> nat \<Rightarrow> 'e + string option" where
  "polled_status describe k =
     (case describe k of Inl e \<Rightarrow> Inl e | Inr d \<Rightarrow> Inr (map_of d ''FeatureGroupStatus''))"

text \<open>The events of a call of the function whose polls \<open>0 .. n\<close> returned, before its last
  line.\<close>

definition wait_events :: "string \<Rightarrow> nat \<Rightarrow> 'o event list" where
  "wait_events name n = Describe name 0 # concat (map (poll_round name) [1..<Suc n])"

text \<open>Example feature groups: two polls answer \<^verbatim>\<open>Creating\<close>, every later one \<open>final\<close>.\<close>

definition example_responses :: "string \<Rightarrow> nat \<Rightarrow> response" where
  "example_responses final k =
     [(''FeatureGroupName'', ''fg''), (''FeatureGroupStatus'', if k < 2 then ''Creating'' else final)]"

definition example_describe :: "string \<Rightarrow> nat \<Rightarrow> unit + response" where
  "example_describe final k = Inr (example_responses final k)"

text \<open>A feature group whose every \<^verbatim>\<open>describe()\<close> raises, and one whose every poll answers
  \<^verbatim>\<open>Creating\<close>.\<close>

definition example_describe_raises :: "nat \<Rightarrow> unit + response" where
  "example_describe_raises k = Inl ()"

definition example_describe_creating :: "nat \<Rightarrow> unit + response" where
  "example_describe_creating k = Inr [(''FeatureGroupStatus'', ''Creating'')]"

section \<open>The notebook\<close>

text \<open>
  What lies outside the notebook. Each field is what the corresponding call does on its
  arguments: raise a library exception (\<open>Inl\<close>) or return a value. \<open>describe env name k\<close>
  is the \<open>k\<close>-th \<^verbatim>\<open>describe()\<close> of the feature group \<open>name\<close> in the run.
  \<open>current_time_sec\<close> is the clock reading \<^verbatim>\<open>int(round(time.time()))\<close>.
\<close>

record ('o, 'e) env =
  new_session :: "'e + unit"
  default_bucket :: "'e + string"
  get_execution_role :: "'e + string"
  s3_get_object :: "string \<Rightarrow> string \<Rightarrow> 'e + string"
  read_csv :: "string \<Rightarrow> 'e + 'o dataframe"
  current_time_sec :: int
  load_feature_definitions :: "string \<Rightarrow> 'o dataframe \<Rightarrow> 'e + unit"
  create :: "string \<Rightarrow> string \<Rightarrow> string \<Rightarrow> string \<Rightarrow> string \<Rightarrow> bool \<Rightarrow> 'e + unit"
  describe :: "string \<Rightarrow> nat \<Rightarrow> 'e + response"
  ingest :: "string \<Rightarrow> 'o dataframe \<Rightarrow> nat \<Rightarrow> bool \<Rightarrow> 'e + unit"
  get_record :: "string \<Rightarrow> string \<Rightarrow> 'e + response"

text \<open>
  Sequencing. A library call is one event and either its value or its exception; a printed
  line or displayed value is one event. \<open>and_then m f\<close> runs \<open>m\<close> and, when \<open>m\<close> returns a
  value, runs \<open>f\<close> on it; an exception of \<open>m\<close> ends the run there, since the notebook has
  no \<^verbatim>\<open>try\<close> statement (the cells are run in order, and the run stops at the first
  exception).
\<close>

definition lib_call :: "'o event \<Rightarrow> 'e + 'a \<Rightarrow> ('o, 'e, 'a) outcome" where
  "lib_call ev r = Some ([ev], case r of Inl e \<Rightarrow> Inl (LibraryError e) | Inr x \<Rightarrow> Inr x)"

definition emit :: "'o event \<Rightarrow> ('o, 'e, unit) outcome" where
  "emit ev = Some ([ev], Inr ())"

definition computed :: "'e error + 'a \<Rightarrow> ('o, 'e, 'a) outcome" where
  "computed r = Some ([], r)"

text \<open>A call that mutates its argument in place: the run goes on with the mutated value
  when the call returned, and ends with the exception when it raised.\<close>

definition mutated :: "'a \<times> 'e error option \<Rightarrow> ('o, 'e, 'a) outcome" where
  "mutated r = (case snd r of None \<Rightarrow> Some ([], Inr (fst r)) | Some err \<Rightarrow> Some ([], Inl err))"

definition and_then :: "('o, 'e, 'a) outcome \<Rightarrow> ('a \<Rightarrow> ('o, 'e, 'b) outcome) \<Rightarrow> ('o, 'e, 'b) outcome" where
  "and_then m f =
     (case m of
        None \<Rightarrow> None
      | Some (tr, Inl err) \<Rightarrow> Some (tr, Inl err)
      | Some (tr, Inr x) \<Rightarrow>
          (case f x of None \<Rightarrow> None | Some (tr', r) \<Rightarrow> Some (tr @ tr', r)))"

text \<open>The notebook's constants.\<close>

definition prefix_name :: string where
  "prefix_name = ''sagemaker-featurestore-demo''"

definition data_file_key :: string where
  "data_file_key = ''data/fraud-detection/credit-dataset.csv''"

definition fd_feature_group_name :: string where
  "fd_feature_group_name = ''transactionfeaturegroup001''"

definition record_identifier_feature_name :: string where
  "record_identifier_feature_name = ''record_id''"

text \<open>\<^verbatim>\<open>transaction_data.head()\<close>: the first five rows.\<close>

definition head :: "'o dataframe \<Rightarrow> 'o dataframe" where
  "head df = \<lparr>nrows = min 5 (nrows df),
              columns = map (\<lambda>c. (fst c, (snd c)\<lparr>vals := take 5 (vals (snd c))\<rparr>)) (columns df)\<rparr>"

text \<open>
  The code cells, in order. Cell 1 builds the boto3 session, the two clients and the
  SageMaker session. Cells 2 and 3:
  \<^verbatim>\<open>
  default_s3_bucket_name = feature_store_session.default_bucket()
  prefix = 'sagemaker-featurestore-demo'
  print(default_s3_bucket_name)

  role = get_execution_role()
  print (role)
  \<close>
\<close>

definition cell_session :: "('o, 'e) env \<Rightarrow> ('o, 'e, unit) outcome" where
  "cell_session env = lib_call NewSession (new_session env)"

definition cell_bucket :: "('o, 'e) env \<Rightarrow> ('o, 'e, string) outcome" where
  "cell_bucket env =
     and_then (lib_call DefaultBucket (default_bucket env)) (\<lambda>default_s3_bucket_name.
     and_then (emit (Print default_s3_bucket_name)) (\<lambda>_.
     computed (Inr default_s3_bucket_name)))"

definition cell_role :: "('o, 'e) env \<Rightarrow> ('o, 'e, string) outcome" where
  "cell_role env =
     and_then (lib_call GetExecutionRole (get_execution_role env)) (\<lambda>role.
     and_then (emit (Print role)) (\<lambda>_.
     computed (Inr role)))"

text \<open>
  (after building the S3 client)
  \<^verbatim>\<open>
  fraud_detection_bucket_name = default_s3_bucket_name
  data_file_key = 'data/fraud-detection/credit-dataset.csv'
  data_object = s3_client.get_object(Bucket=fraud_detection_bucket_name, Key=data_file_key)
  transaction_data = pd.read_csv(io.BytesIO(data_object['Body'].read()))
  transaction_data.head()
  \<close>
\<close>

definition cell_load :: "('o, 'e) env \<Rightarrow> string \<Rightarrow> ('o, 'e, 'o dataframe) outcome" where
  "cell_load env default_s3_bucket_name =
     and_then (lib_call (S3GetObject default_s3_bucket_name data_file_key)
                 (s3_get_object env default_s3_bucket_name data_file_key)) (\<lambda>body.
     and_then (lib_call (ReadCsv body) (read_csv env body)) (\<lambda>transaction_data.
     and_then (emit (Display (ShownFrame (head transaction_data)))) (\<lambda>_.
     computed (Inr transaction_data))))"

text \<open>
  \<^verbatim>\<open>
  current_time_sec = int(round(time.time()))
  cast_object_to_string(transaction_data)
  record_identifier_feature_name = "record_id"
  event_time_feature_name = "event_time"
  transaction_data[event_time_feature_name] = pd.Series(...)
  fd_feature_group.load_feature_definitions(data_frame=transaction_data);
  \<close>
\<close>

definition cell_prepare ::
  "'o pylib \<Rightarrow> ('o, 'e) env \<Rightarrow> 'o dataframe \<Rightarrow> ('o, 'e, 'o dataframe) outcome" where
  "cell_prepare L env transaction_data =
     and_then (mutated (cast_object_to_string L transaction_data)) (\<lambda>transaction_data.
     and_then (computed (Inr (set_event_time L (current_time_sec env) transaction_data))) (\<lambda>transaction_data.
     and_then (lib_call (LoadFeatureDefinitions fd_feature_group_name transaction_data)
                 (load_feature_definitions env fd_feature_group_name transaction_data)) (\<lambda>_.
     computed (Inr transaction_data))))"

text \<open>
  \<^verbatim>\<open>
  fd_feature_group.create(
      s3_uri=f"s3://{default_s3_bucket_name}/{prefix}",
      record_identifier_name=record_identifier_feature_name,
      event_time_feature_name=event_time_feature_name,
      role_arn=role,
      enable_online_store=True,
  )
  wait_for_feature_group_creation_complete(feature_group=fd_feature_group)
  \<close>
\<close>

definition cell_create :: "('o, 'e) env \<Rightarrow> string \<Rightarrow> string \<Rightarrow> ('o, 'e, nat) outcome" where
  "cell_create env default_s3_bucket_name role =
     and_then (lib_call (Create fd_feature_group_name
                   (''s3://'' @ default_s3_bucket_name @ ''/'' @ prefix_name)
                   record_identifier_feature_name event_time_feature_name role True)
                 (create env fd_feature_group_name
                   (''s3://'' @ default_s3_bucket_name @ ''/'' @ prefix_name)
                   record_identifier_feature_name event_time_feature_name role True)) (\<lambda>_.
     wait_for_feature_group_creation_complete (describe env fd_feature_group_name) fd_feature_group_name)"

text \<open>
  \<^verbatim>\<open>fd_feature_group.describe()\<close>, then
  \<^verbatim>\<open>fd_feature_group.ingest(data_frame=transaction_data, max_workers=3, wait=True)\<close>, then
  \<^verbatim>\<open>
  record_identifier_value = str(100)
  featurestore_runtime.get_record(FeatureGroupName=fd_feature_group_name,
      RecordIdentifierValueAsString=record_identifier_value)
  \<close>
  each the last expression of its cell, so its value is displayed. \<open>k\<close> is the number of
  \<^verbatim>\<open>describe()\<close> calls made before.
\<close>

definition cell_describe :: "('o, 'e) env \<Rightarrow> nat \<Rightarrow> ('o, 'e, unit) outcome" where
  "cell_describe env k =
     and_then (lib_call (Describe fd_feature_group_name k) (describe env fd_feature_group_name k)) (\<lambda>d.
     emit (Display (ShownDescription d)))"

definition cell_ingest :: "('o, 'e) env \<Rightarrow> 'o dataframe \<Rightarrow> ('o, 'e, unit) outcome" where
  "cell_ingest env transaction_data =
     and_then (lib_call (Ingest fd_feature_group_name transaction_data 3 True)
                 (ingest env fd_feature_group_name transaction_data 3 True)) (\<lambda>_.
     emit (Display ShownIngestionManager))"

definition cell_get_record :: "('o, 'e) env \<Rightarrow> ('o, 'e, response) outcome" where
  "cell_get_record env =
     and_then (computed (Inr (str_int 100))) (\<lambda>record_identifier_value.
     and_then (lib_call (GetRecord fd_feature_group_name record_identifier_value)
                 (get_record env fd_feature_group_name record_identifier_value)) (\<lambda>r.
     and_then (emit (Display (ShownRecord r))) (\<lambda>_.
     computed (Inr r))))"

text \<open>The run of the whole notebook; its value is the record that the last cell displays.
  (The cell after it, \<^verbatim>\<open>% store fd_feature_group_name\<close>, is an IPython magic that calls
  no service.)\<close>

definition notebook :: "'o pylib \<Rightarrow> ('o, 'e) env \<Rightarrow> ('o, 'e, response) outcome" where
  "notebook L env =
     and_then (cell_session env) (\<lambda>_.
     and_then (cell_bucket env) (\<lambda>default_s3_bucket_name.
     and_then (cell_role env) (\<lambda>role.
     and_then (cell_load env default_s3_bucket_name) (\<lambda>transaction_data.
     and_then (cell_prepare L env transaction_data) (\<lambda>transaction_data.
     and_then (cell_create env default_s3_bucket_name role) (\<lambda>k.
     and_then (cell_describe env k) (\<lambda>_.
     and_then (cell_ingest env transaction_data) (\<lambda>_.
     cell_get_record env))))))))"

section \<open>Vocabulary for the runs of the notebook\<close>

text \<open>The events of the cells up to the data read, of the data read, the
  \<^verbatim>\<open>create\<close> call of the notebook and the last line of the wait.\<close>

definition setup_events :: "string \<Rightarrow> string \<Rightarrow> 'o event list" where
  "setup_events bucket role = [NewSession, DefaultBucket, Print bucket, GetExecutionRole, Print role]"

definition load_events :: "string \<Rightarrow> string \<Rightarrow> 'o dataframe \<Rightarrow> 'o event list" where
  "load_events bucket body df = [S3GetObject bucket data_file_key, ReadCsv body, Display (ShownFrame (head df))]"

definition create_event :: "string \<Rightarrow> string \<Rightarrow> 'o event" where
  "create_event bucket role =
     Create fd_feature_group_name (''s3://'' @ bucket @ ''/'' @ prefix_name)
       record_identifier_feature_name event_time_feature_name role True"

definition created_message :: "'o event" where
  "created_message = Print (''FeatureGroup '' @ fd_feature_group_name @ '' successfully created.'')"

text \<open>What the environment answered on the way: the session, bucket, role, object and
  frame were obtained; the frame was cast and given its event time.\<close>

definition loaded :: "('o, 'e) env \<Rightarrow> string \<Rightarrow> string \<Rightarrow> string \<Rightarrow> 'o dataframe \<Rightarrow> bool" where
  "loaded env bucket role body df \<longleftrightarrow>
     new_session env = Inr () \<and> default_bucket env = Inr bucket \<and> get_execution_role env = Inr role \<and>
     s3_get_object env bucket data_file_key = Inr body \<and> read_csv env body = Inr df"

definition prepared :: "'o pylib \<Rightarrow> ('o, 'e) env \<Rightarrow> 'o dataframe \<Rightarrow> 'o dataframe \<Rightarrow> bool" where
  "prepared L env df df' \<longleftrightarrow>
     (\<exists>df1. cast_object_to_string L df = (df1, None :: 'e error option) \<and>
        df' = set_event_time L (current_time_sec env) df1)"

text \<open>The first \<open>n\<close> polls answered \<^verbatim>\<open>Creating\<close>.\<close>

definition creating_until :: "('o, 'e) env \<Rightarrow> nat \<Rightarrow> bool" where
  "creating_until env n \<longleftrightarrow>
     (\<forall>j<n. polled_status (describe env fd_feature_group_name) j = Inr (Some ''Creating''))"

text \<open>What the environment answers to the notebook's \<^verbatim>\<open>create\<close> call.\<close>

definition create_result :: "('o, 'e) env \<Rightarrow> string \<Rightarrow> string \<Rightarrow> 'e + unit" where
  "create_result env bucket role =
     create env fd_feature_group_name (''s3://'' @ bucket @ ''/'' @ prefix_name)
       record_identifier_feature_name event_time_feature_name role True"

text \<open>The frame was registered: loaded, prepared, and its feature definitions loaded. The
  feature group was created: the \<^verbatim>\<open>create\<close> call returned and the poll after \<open>n\<close> answers
  \<^verbatim>\<open>Creating\<close> answered \<^verbatim>\<open>Created\<close>.\<close>

definition registered ::
  "'o pylib \<Rightarrow> ('o, 'e) env \<Rightarrow> string \<Rightarrow> string \<Rightarrow> string \<Rightarrow> 'o dataframe \<Rightarrow> 'o dataframe \<Rightarrow> bool" where
  "registered L env bucket role body df df' \<longleftrightarrow>
     loaded env bucket role body df \<and> prepared L env df df' \<and>
     load_feature_definitions env fd_feature_group_name df' = Inr ()"

definition created :: "('o, 'e) env \<Rightarrow> string \<Rightarrow> string \<Rightarrow> nat \<Rightarrow> bool" where
  "created env bucket role n \<longleftrightarrow>
     create_result env bucket role = Inr () \<and> creating_until env n \<and>
     polled_status (describe env fd_feature_group_name) n = Inr (Some ''Created'')"

text \<open>The events of a run up to its \<^verbatim>\<open>create\<close> call, and up to the end of the wait.\<close>

definition events_to_create ::
  "string \<Rightarrow> string \<Rightarrow> string \<Rightarrow> 'o dataframe \<Rightarrow> 'o dataframe \<Rightarrow> 'o event list" where
  "events_to_create bucket role body df df' =
     setup_events bucket role @ load_events bucket body df @
     [LoadFeatureDefinitions fd_feature_group_name df', create_event bucket role]"

definition events_to_created ::
  "string \<Rightarrow> string \<Rightarrow> string \<Rightarrow> 'o dataframe \<Rightarrow> 'o dataframe \<Rightarrow> nat \<Rightarrow> 'o event list" where
  "events_to_created bucket role body df df' n =
     events_to_create bucket role body df df' @ wait_events fd_feature_group_name n @ [created_message]"

text \<open>Kinds of events.\<close>

fun is_get_record :: "'o event \<Rightarrow> bool" where
  "is_get_record (GetRecord name ident) = True"
| "is_get_record _ = False"

fun is_ingest :: "'o event \<Rightarrow> bool" where
  "is_ingest (Ingest name df workers wait) = True"
| "is_ingest _ = False"

fun is_create :: "'o event \<Rightarrow> bool" where
  "is_create (Create name uri ident time role online) = True"
| "is_create _ = False"

fun is_load_feature_definitions :: "'o event \<Rightarrow> bool" where
  "is_load_feature_definitions (LoadFeatureDefinitions name df) = True"
| "is_load_feature_definitions _ = False"

text \<open>Calls on the feature group or the feature-store runtime; calls answered by the
  managed services through the SDK (those, and the two by which the SageMaker session
  resolves the default bucket and the execution role); the data read.\<close>

fun is_feature_store_call :: "'o event \<Rightarrow> bool" where
  "is_feature_store_call (LoadFeatureDefinitions name df) = True"
| "is_feature_store_call (Create name uri ident time role online) = True"
| "is_feature_store_call (Describe name k) = True"
| "is_feature_store_call (Ingest name df workers wait) = True"
| "is_feature_store_call (GetRecord name ident) = True"
| "is_feature_store_call _ = False"

fun is_managed_service_call :: "'o event \<Rightarrow> bool" where
  "is_managed_service_call DefaultBucket = True"
| "is_managed_service_call GetExecutionRole = True"
| "is_managed_service_call ev = is_feature_store_call ev"

fun is_data_read :: "'o event \<Rightarrow> bool" where
  "is_data_read (S3GetObject bucket key) = True"
| "is_data_read (ReadCsv body) = True"
| "is_data_read _ = False"

text \<open>The externally visible operations of the notebook: every call out of it, and the
  display of the record. The operation an event is (printed lines, sleeps and the other
  displayed values are none), the order in which the notebook performs them, and which
  operation may come directly after which.\<close>

datatype operation =
  BuildSession | ResolveBucket | ResolveRole | FetchCsv | ParseCsv | LoadDefinitions | CreateGroup |
  PollStatus | IngestRows | LookupRecord | ShowRecord

fun operation_of :: "'o event \<Rightarrow> operation option" where
  "operation_of NewSession = Some BuildSession"
| "operation_of DefaultBucket = Some ResolveBucket"
| "operation_of GetExecutionRole = Some ResolveRole"
| "operation_of (S3GetObject bucket key) = Some FetchCsv"
| "operation_of (ReadCsv body) = Some ParseCsv"
| "operation_of (LoadFeatureDefinitions name df) = Some LoadDefinitions"
| "operation_of (Create name uri ident time role online) = Some CreateGroup"
| "operation_of (Describe name k) = Some PollStatus"
| "operation_of (Ingest name df workers wait) = Some IngestRows"
| "operation_of (GetRecord name ident) = Some LookupRecord"
| "operation_of (Display (ShownRecord r)) = Some ShowRecord"
| "operation_of _ = None"

definition operations :: "'o event list \<Rightarrow> operation list" where
  "operations tr = List.map_filter operation_of tr"

fun rank :: "operation \<Rightarrow> nat" where
  "rank BuildSession = 0"
| "rank ResolveBucket = 1"
| "rank ResolveRole = 2"
| "rank FetchCsv = 3"
| "rank ParseCsv = 4"
| "rank LoadDefinitions = 5"
| "rank CreateGroup = 6"
| "rank PollStatus = 7"
| "rank IngestRows = 8"
| "rank LookupRecord = 9"
| "rank ShowRecord = 10"

fun follows :: "operation \<Rightarrow> operation \<Rightarrow> bool" where
  "follows BuildSession ResolveBucket = True"
| "follows ResolveBucket ResolveRole = True"
| "follows ResolveRole FetchCsv = True"
| "follows FetchCsv ParseCsv = True"
| "follows ParseCsv LoadDefinitions = True"
| "follows LoadDefinitions CreateGroup = True"
| "follows CreateGroup PollStatus = True"
| "follows PollStatus PollStatus = True"
| "follows PollStatus IngestRows = True"
| "follows IngestRows LookupRecord = True"
| "follows LookupRecord ShowRecord = True"
| "follows _ _ = False"


text \<open>An example environment in which every call returns and the feature group is created
  at the third poll, and the events and value of the notebook's run in it.\<close>

definition example_env :: "(example_obj, unit) env" where
  "example_env = \<lparr>
     new_session = Inr (),
     default_bucket = Inr ''bucket'',
     get_execution_role = Inr ''role'',
     s3_get_object = (\<lambda>bucket key. Inr ''csv''),
     read_csv = (\<lambda>body. Inr example_frame),
     current_time_sec = 1629776605,
     load_feature_definitions = (\<lambda>name df. Inr ()),
     create = (\<lambda>name uri ident time role online. Inr ()),
     describe = (\<lambda>name. example_describe ''Created''),
     ingest = (\<lambda>name df workers wait. Inr ()),
     get_record = (\<lambda>name ident. Inr [(''record_id'', ident)])\<rparr>"

definition example_prepared :: "example_obj dataframe" where
  "example_prepared = \<lparr>nrows = 2, columns =
     [(''merchant'', \<lparr>dtype = StringDtype, vals = [PyStr ''acme'', PyStr ''nan'']\<rparr>),
      (''amount'', \<lparr>dtype = Float64, vals = [PyObj (OFloat 15), PyObj (OFloat 7)]\<rparr>),
      (''event_time'', \<lparr>dtype = Float64, vals = [PyObj (OFloat 1629776605), PyObj (OFloat 1629776605)]\<rparr>)]\<rparr>"

definition example_trace :: "example_obj event list" where
  "example_trace =
     [NewSession, DefaultBucket, Print ''bucket'', GetExecutionRole, Print ''role'',
      S3GetObject ''bucket'' ''data/fraud-detection/credit-dataset.csv'', ReadCsv ''csv'',
      Display (ShownFrame example_frame),
      LoadFeatureDefinitions ''transactionfeaturegroup001'' example_prepared,
      Create ''transactionfeaturegroup001'' ''s3://bucket/sagemaker-featurestore-demo''
        ''record_id'' ''event_time'' ''role'' True,
      Describe ''transactionfeaturegroup001'' 0,
      Print ''Waiting for Feature Group Creation'', Sleep 5, Describe ''transactionfeaturegroup001'' 1,
      Print ''Waiting for Feature Group Creation'', Sleep 5, Describe ''transactionfeaturegroup001'' 2,
      Print ''FeatureGroup transactionfeaturegroup001 successfully created.'',
      Describe ''transactionfeaturegroup001'' 3,
      Display (ShownDescription (example_responses ''Created'' 3)),
      Ingest ''transactionfeaturegroup001'' example_prepared 3 True,
      Display ShownIngestionManager,
      GetRecord ''transactionfeaturegroup001'' ''100'',
      Display (ShownRecord [(''record_id'', ''100'')])]"










section \<open>Properties of the cast\<close>

lemma astype_string_astype_str: "astype_string L (astype_str L s) = string_form L s"
  by (simp add: astype_string_def astype_str_def string_form_def)

lemma columns_labelled_single:
  assumes "columns_labelled df l = [s]" and "c \<in> set (columns df)" and "fst c = l"
  shows "snd c = s"
proof -
  from assms(2,3) have "snd c \<in> set (columns_labelled df l)"
    by (auto simp: columns_labelled_def)
  with assms(1) show ?thesis by simp
qed

lemma columns_labelled_mem:
  assumes "columns_labelled df l = s # ss"
  shows "l \<in> set (map fst (columns df))"
proof -
  from assms have "s \<in> set (columns_labelled df l)" by simp
  then show ?thesis by (auto simp: columns_labelled_def)
qed

lemma setitem_single:
  assumes "columns_labelled df l = [s]"
  shows "columns (setitem df l (string_form L s)) = map (cast_col L {l}) (columns df) \<or> dtype s \<noteq> Object"
    and "nrows (setitem df l t) = nrows df"
proof -
  have mem: "l \<in> set (map fst (columns df))"
    using assms by (rule columns_labelled_mem)
  show "nrows (setitem df l t) = nrows df"
    by (simp add: setitem_def)
  show "columns (setitem df l (string_form L s)) = map (cast_col L {l}) (columns df) \<or> dtype s \<noteq> Object"
  proof (cases "dtype s = Object")
    case True
    have "map (\<lambda>c. if fst c = l then (l, string_form L s) else c) (columns df)
          = map (cast_col L {l}) (columns df)"
    proof (rule map_cong[OF refl])
      fix c assume c: "c \<in> set (columns df)"
      show "(if fst c = l then (l, string_form L s) else c) = cast_col L {l} c"
        using columns_labelled_single[OF assms c] True by (auto simp: cast_col_def)
    qed
    with mem show ?thesis by (simp add: setitem_def)
  next
    case False
    then show ?thesis by simp
  qed
qed

lemma cast_col_twice:
  "cast_col L A (cast_col L B c) = cast_col L (A \<union> B) c"
  by (auto simp: cast_col_def string_form_def)

lemma cast_col_empty: "map (cast_col L {}) cs = cs"
  by (rule map_idI) (simp add: cast_col_def)

text \<open>However the loop ends, it has cast the object columns of the labels it got through,
  and of all its labels when it returned.\<close>

lemma cast_loop_columns:
  "\<exists>A. columns (fst (cast_loop L ls df :: 'o dataframe \<times> 'e error option)) = map (cast_col L A) (columns df) \<and>
       nrows (fst (cast_loop L ls df :: 'o dataframe \<times> 'e error option)) = nrows df \<and>
       (snd (cast_loop L ls df :: 'o dataframe \<times> 'e error option) = None \<longrightarrow> A = set ls)"
proof (induction ls arbitrary: df)
  case Nil
  show ?case
    by (rule exI[of _ "{}"]) (simp add: cast_col_empty)
next
  case (Cons l ls)
  show ?case
  proof (cases "columns_labelled df l")
    case Nil
    then show ?thesis
      by (intro exI[of _ "{}"]) (simp add: cast_col_empty)
  next
    case outer: (Cons s ss)
    show ?thesis
    proof (cases ss)
      case (Cons s' ss')
      with outer show ?thesis
        by (intro exI[of _ "{}"]) (simp add: cast_col_empty)
    next
      case Nil
      with outer have s: "columns_labelled df l = [s]" by simp
      show ?thesis
      proof (cases "dtype s = Object")
        case True
        let ?df1 = "setitem df l (string_form L s)"
        have run: "(cast_loop L (l # ls) df :: 'o dataframe \<times> 'e error option) = cast_loop L ls ?df1"
          using s True by (simp add: astype_string_astype_str)
        from Cons.IH[of ?df1] obtain A where
          A: "columns (fst (cast_loop L ls ?df1 :: 'o dataframe \<times> 'e error option)) = map (cast_col L A) (columns ?df1)"
            "nrows (fst (cast_loop L ls ?df1 :: 'o dataframe \<times> 'e error option)) = nrows ?df1"
            "snd (cast_loop L ls ?df1 :: 'o dataframe \<times> 'e error option) = None \<longrightarrow> A = set ls"
          by (elim exE conjE)
        have "columns ?df1 = map (cast_col L {l}) (columns df)"
          using setitem_single(1)[OF s, of L] True by simp
        moreover have "nrows ?df1 = nrows df"
          by (rule setitem_single(2)[OF s])
        ultimately show ?thesis
          using A unfolding run
          by (intro exI[of _ "A \<union> {l}"]) (auto simp: cast_col_twice comp_def)
      next
        case False
        have run: "(cast_loop L (l # ls) df :: 'o dataframe \<times> 'e error option) = cast_loop L ls df"
          using s False by simp
        from Cons.IH[of df] obtain A where
          A: "columns (fst (cast_loop L ls df :: 'o dataframe \<times> 'e error option)) = map (cast_col L A) (columns df)"
            "nrows (fst (cast_loop L ls df :: 'o dataframe \<times> 'e error option)) = nrows df"
            "snd (cast_loop L ls df :: 'o dataframe \<times> 'e error option) = None \<longrightarrow> A = set ls"
          by (elim exE conjE)
        have "map (cast_col L A) (columns df) = map (cast_col L (insert l A)) (columns df)"
        proof (rule map_cong[OF refl])
          fix c assume c: "c \<in> set (columns df)"
          show "cast_col L A c = cast_col L (insert l A) c"
            using columns_labelled_single[OF s c] False by (auto simp: cast_col_def)
        qed
        with A show ?thesis
          unfolding run by (intro exI[of _ "insert l A"]) auto
      qed
    qed
  qed
qed

lemma cast_col_fst [simp]: "fst (cast_col L A c) = fst c"
  by (simp add: cast_col_def)

lemma cast_object_to_string_state:
  "\<exists>A. columns (fst (cast_object_to_string L df :: 'o dataframe \<times> 'e error option)) =
         map (cast_col L A) (columns df) \<and>
       nrows (fst (cast_object_to_string L df :: 'o dataframe \<times> 'e error option)) = nrows df"
  using cast_loop_columns[where ?'e = 'e, of L "map fst (columns df)" df]
  unfolding cast_object_to_string_def by blast

lemma cast_object_to_string_columns:
  assumes "cast_object_to_string L df = (df', None :: 'e error option)"
  shows "columns df' = map (cast_col L UNIV) (columns df)" and "nrows df' = nrows df"
proof -
  from cast_loop_columns[where ?'e = 'e, of L "map fst (columns df)" df] assms
  have *: "columns df' = map (cast_col L (set (map fst (columns df)))) (columns df)"
    and "nrows df' = nrows df"
    by (auto simp: cast_object_to_string_def)
  then show "nrows df' = nrows df" by simp
  have "map (cast_col L (set (map fst (columns df)))) (columns df) = map (cast_col L UNIV) (columns df)"
    by (rule map_cong[OF refl]) (auto simp: cast_col_def)
  with * show "columns df' = map (cast_col L UNIV) (columns df)" by simp
qed

text \<open>The cast returns on every frame whose column labels are pairwise different (as the
  labels of a frame read by \<^verbatim>\<open>read_csv\<close> are).\<close>

lemma distinct_columns_labelled:
  "distinct (map fst xs) \<Longrightarrow> l \<in> set (map fst xs) \<Longrightarrow>
     \<exists>s. map snd (filter (\<lambda>c. fst c = l) xs) = [s]"
proof (induction xs)
  case Nil
  then show ?case by simp
next
  case (Cons x xs)
  show ?case
  proof (cases "fst x = l")
    case True
    with Cons.prems have "l \<notin> set (map fst xs)" by auto
    then have "filter (\<lambda>c. fst c = l) xs = []"
      by (auto simp: filter_empty_conv)
    with True show ?thesis by simp
  next
    case False
    with Cons show ?thesis by auto
  qed
qed

lemma setitem_labels:
  "l \<in> set (map fst (columns df)) \<Longrightarrow> map fst (columns (setitem df l s)) = map fst (columns df)"
  by (auto simp: setitem_def)

lemma cast_loop_returns:
  "distinct (map fst (columns df)) \<Longrightarrow> set ls \<subseteq> set (map fst (columns df)) \<Longrightarrow>
     snd (cast_loop L ls df :: 'o dataframe \<times> 'e error option) = None"
proof (induction ls arbitrary: df)
  case Nil
  then show ?case by simp
next
  case (Cons l ls)
  from Cons.prems have mem: "l \<in> set (map fst (columns df))" by simp
  from distinct_columns_labelled[OF Cons.prems(1) mem]
  obtain s where s: "columns_labelled df l = [s]"
    by (auto simp: columns_labelled_def)
  show ?case
  proof (cases "dtype s = Object")
    case True
    let ?df1 = "setitem df l (astype_string L (astype_str L s))"
    have "map fst (columns ?df1) = map fst (columns df)"
      using mem by (rule setitem_labels)
    with Cons.prems have "distinct (map fst (columns ?df1))" "set ls \<subseteq> set (map fst (columns ?df1))"
      by simp_all
    from Cons.IH[OF this] s True show ?thesis by simp
  next
    case False
    from Cons.prems have "distinct (map fst (columns df))" "set ls \<subseteq> set (map fst (columns df))"
      by simp_all
    from Cons.IH[OF this] s False show ?thesis by simp
  qed
qed

lemma cast_object_to_string_returns:
  fixes df :: "'o dataframe"
  shows "distinct (map fst (columns df)) \<Longrightarrow>
     \<exists>df'. cast_object_to_string L df = (df', None :: 'e error option)"
  using cast_loop_returns[where ?'e = 'e, of df "map fst (columns df)" L]
  unfolding cast_object_to_string_def by (cases "cast_loop L (map fst (columns df)) df :: 'o dataframe \<times> 'e error option") simp

text \<open>
  C3. For every dataframe on which \<open>cast_object_to_string\<close> returns, every column whose
  dtype was object before the call stands at the same position under the same label with
  dtype string, and each of its values is the string form (\<^verbatim>\<open>str\<close>) of the original value.
\<close>

theorem cast_object_columns_become_string:
  assumes "cast_object_to_string L df = (df', None :: 'e error option)"
    and "i < length (columns df)"
    and "dtype (snd (columns df ! i)) = Object"
  shows "length (columns df') = length (columns df) \<and>
         fst (columns df' ! i) = fst (columns df ! i) \<and>
         dtype (snd (columns df' ! i)) = StringDtype \<and>
         vals (snd (columns df' ! i)) = map (\<lambda>v. PyStr (py_str L v)) (vals (snd (columns df ! i)))"
  using cast_object_to_string_columns(1)[OF assms(1)] assms(2,3)
  by (simp add: cast_col_def string_form_def)

lemma example_frame_cast:
  "cast_object_to_string example_lib example_frame =
     (\<lparr>nrows = 2, columns =
     [(''merchant'', \<lparr>dtype = StringDtype, vals = [PyStr ''acme'', PyStr ''nan'']\<rparr>),
      (''amount'', \<lparr>dtype = Float64, vals = [PyObj (OFloat 15), PyObj (OFloat 7)]\<rparr>),
      (''event_time'', \<lparr>dtype = StringDtype, vals = [PyStr ''2021-08-24'', PyStr ''5'']\<rparr>)]\<rparr>,
      None :: 'e error option)"
  by (simp add: cast_object_to_string_def example_frame_def example_lib_def columns_labelled_def
      setitem_def astype_str_def astype_string_def str_int_def str_nat.simps)

theorem cast_object_columns_become_string_witness:
  "\<exists>df'. cast_object_to_string example_lib example_frame = (df', None :: unit error option) \<and>
     2 < length (columns example_frame) \<and>
     dtype (snd (columns example_frame ! 2)) = Object \<and>
     fst (columns df' ! 2) = ''event_time'' \<and>
     dtype (snd (columns df' ! 2)) = StringDtype \<and>
     vals (snd (columns df' ! 2)) = [PyStr ''2021-08-24'', PyStr ''5'']"
proof -
  let ?df' = "\<lparr>nrows = 2, columns =
     [(''merchant'', \<lparr>dtype = StringDtype, vals = [PyStr ''acme'', PyStr ''nan'']\<rparr>),
      (''amount'', \<lparr>dtype = Float64, vals = [PyObj (OFloat 15), PyObj (OFloat 7)]\<rparr>),
      (''event_time'', \<lparr>dtype = StringDtype, vals = [PyStr ''2021-08-24'', PyStr ''5'']\<rparr>)]\<rparr>"
  have run: "cast_object_to_string example_lib example_frame = (?df', None :: unit error option)"
    by (rule example_frame_cast)
  have i: "2 < length (columns example_frame)"
    by (simp add: example_frame_def)
  have obj: "dtype (snd (columns example_frame ! 2)) = Object"
    by (simp add: example_frame_def)
  from cast_object_columns_become_string[OF run i obj] run i obj
  show ?thesis
    by (simp add: example_frame_def example_lib_def str_int_def str_nat.simps)
qed

text \<open>
  C8. For every dataframe, \<open>cast_object_to_string\<close> leaves every column whose dtype is not
  object unchanged, whether it returns or raises: label, dtype and values after the call
  are those before, at the same position.
\<close>

theorem cast_other_columns_unchanged:
  assumes "i < length (columns df)"
    and "dtype (snd (columns df ! i)) \<noteq> Object"
  shows "length (columns (fst (cast_object_to_string L df :: 'o dataframe \<times> 'e error option))) = length (columns df) \<and>
         columns (fst (cast_object_to_string L df :: 'o dataframe \<times> 'e error option)) ! i = columns df ! i"
  using cast_object_to_string_state[where ?'e = 'e, of L df] assms
  by (auto simp: cast_col_def)

theorem cast_other_columns_unchanged_witness:
  "1 < length (columns example_frame) \<and>
   dtype (snd (columns example_frame ! 1)) \<noteq> Object \<and>
   columns (fst (cast_object_to_string example_lib example_frame :: example_obj dataframe \<times> unit error option)) ! 1 =
     (''amount'', \<lparr>dtype = Float64, vals = [PyObj (OFloat 15), PyObj (OFloat 7)]\<rparr>)"
proof -
  have i: "1 < length (columns example_frame)"
    by (simp add: example_frame_def)
  have other: "dtype (snd (columns example_frame ! 1)) \<noteq> Object"
    by (simp add: example_frame_def)
  from cast_other_columns_unchanged[where ?'e = unit, OF i other, of example_lib] i other
  show ?thesis
    by (simp add: example_frame_def)
qed

text \<open>A frame in which two columns share a label makes the cast raise, and leaves the
  frame as it was.\<close>

lemma cast_object_to_string_duplicate_label:
  "cast_object_to_string L \<lparr>nrows = 0, columns = [(''a'', s), (''a'', s')]\<rparr> =
     (\<lparr>nrows = 0, columns = [(''a'', s), (''a'', s')]\<rparr>, Some ValueError)"
  by (simp add: cast_object_to_string_def columns_labelled_def)

section \<open>Properties of the event-time column\<close>

lemma event_time_series_eq:
  "event_time_series L t n = \<lparr>dtype = Float64, vals = replicate n (PyObj (float64_of_int L t))\<rparr>"
  by (simp add: event_time_series_def)

lemma setitem_present:
  "l \<in> set (map fst (columns df)) \<Longrightarrow>
     columns (setitem df l s) = map (\<lambda>c. if fst c = l then (l, s) else c) (columns df)"
  by (simp add: setitem_def)

lemma setitem_absent:
  "l \<notin> set (map fst (columns df)) \<Longrightarrow> columns (setitem df l s) = columns df @ [(l, s)]"
  by (simp add: setitem_def)

lemma setitem_nrows: "nrows (setitem df l s) = nrows df"
  by (simp add: setitem_def)

lemma setitem_has_label: "l \<in> set (map fst (columns (setitem df l s)))"
  by (cases "l \<in> set (map fst (columns df))") (force simp: setitem_present setitem_absent)+

lemma setitem_labelled:
  "c \<in> set (columns (setitem df l s)) \<Longrightarrow> fst c = l \<Longrightarrow> snd c = s"
  by (cases c; cases "l \<in> set (map fst (columns df))")
     (force simp: setitem_present setitem_absent split: if_splits)+

lemma setitem_other:
  "i < length (columns df) \<Longrightarrow> fst (columns df ! i) \<noteq> l \<Longrightarrow>
     columns (setitem df l s) ! i = columns df ! i"
  by (cases "l \<in> set (map fst (columns df))") (simp_all add: setitem_present setitem_absent nth_append)

section \<open>Properties of the wait\<close>

lemma wait_loop_exit:
  "status \<noteq> Some ''Creating'' \<Longrightarrow> wait_loop dsc name k tr status = Some (tr, Inr (k, status))"
  by (subst wait_loop.simps) simp

lemma wait_loop_raise:
  "polled_status dsc k = Inl e \<Longrightarrow>
     wait_loop dsc name k tr (Some ''Creating'') = Some (tr @ poll_round name k, Inl (LibraryError e))"
  by (subst wait_loop.simps) (simp add: polled_status_def split: sum.splits)

lemma wait_loop_step:
  "polled_status dsc k = Inr s \<Longrightarrow>
     wait_loop dsc name k tr (Some ''Creating'') =
     wait_loop dsc name (Suc k) (tr @ poll_round name k) s"
  by (subst wait_loop.simps) (auto simp: polled_status_def split: sum.splits)

lemma wait_loop_creating:
  "(\<forall>j. k \<le> j \<and> j < k + m \<longrightarrow> polled_status dsc j = Inr (Some ''Creating'')) \<Longrightarrow>
     wait_loop dsc name k tr (Some ''Creating'') =
     wait_loop dsc name (k + m) (tr @ concat (map (poll_round name) [k..<k + m])) (Some ''Creating'')"
proof (induction m arbitrary: k tr)
  case 0
  then show ?case by simp
next
  case (Suc m)
  have k: "polled_status dsc k = Inr (Some ''Creating'')"
    using Suc.prems by simp
  have rest: "\<forall>j. Suc k \<le> j \<and> j < Suc k + m \<longrightarrow> polled_status dsc j = Inr (Some ''Creating'')"
    using Suc.prems by simp
  have "[k..<k + Suc m] = k # [Suc k..<Suc k + m]"
    by (simp add: upt_conv_Cons)
  then show ?case
    using wait_loop_step[OF k, of name tr] Suc.IH[OF rest, of "tr @ poll_round name k"]
    by simp
qed

lemma wait_loop_Some:
  assumes "wait_loop dsc name k tr status = Some y"
  shows "status = Some ''Creating'' \<longrightarrow> (\<exists>j\<ge>k. polled_status dsc j \<noteq> Inr (Some ''Creating''))"
proof (rule wait_loop.raw_induct[where P = "\<lambda>dsc name k tr status y.
          status = Some ''Creating'' \<longrightarrow> (\<exists>j\<ge>k. polled_status dsc j \<noteq> Inr (Some ''Creating''))",
        OF _ assms], goal_cases)
  case (1 f dsc name k tr status y)
  show ?case
  proof
    assume st: "status = Some ''Creating''"
    show "\<exists>j\<ge>k. polled_status dsc j \<noteq> Inr (Some ''Creating'')"
    proof (cases "polled_status dsc k = Inr (Some ''Creating'')")
      case True
      then obtain d where d: "dsc k = Inr d" "map_of d ''FeatureGroupStatus'' = Some ''Creating''"
        by (auto simp: polled_status_def split: sum.splits)
      with 1(2) st have "f dsc name (Suc k) (tr @ poll_round name k) (Some ''Creating'') = Some y"
        by simp
      from 1(1)[OF this] obtain j where "j \<ge> Suc k" "polled_status dsc j \<noteq> Inr (Some ''Creating'')"
        by auto
      then show ?thesis
        by (intro exI[of _ j]) simp
    next
      case False
      then show ?thesis by blast
    qed
  qed
qed

lemma wait_loop_diverges:
  assumes "\<forall>j\<ge>k. polled_status dsc j = Inr (Some ''Creating'')"
  shows "wait_loop dsc name k tr (Some ''Creating'') = None"
proof (cases "wait_loop dsc name k tr (Some ''Creating'')")
  case None
  then show ?thesis .
next
  case (Some y)
  from wait_loop_Some[OF this] assms show ?thesis by blast
qed

lemma wait_loop_settles:
  assumes "\<forall>j. k \<le> j \<and> j < n \<longrightarrow> polled_status dsc j = Inr (Some ''Creating'')" and "k \<le> n"
  shows "polled_status dsc n = Inl e \<Longrightarrow>
           wait_loop dsc name k tr (Some ''Creating'') =
           Some (tr @ concat (map (poll_round name) [k..<Suc n]), Inl (LibraryError e))"
    and "polled_status dsc n = Inr s \<Longrightarrow> s \<noteq> Some ''Creating'' \<Longrightarrow>
           wait_loop dsc name k tr (Some ''Creating'') =
           Some (tr @ concat (map (poll_round name) [k..<Suc n]), Inr (Suc n, s))"
proof -
  obtain m where n: "n = k + m"
    using assms(2) by (auto simp: le_iff_add)
  have pre: "\<forall>j. k \<le> j \<and> j < k + m \<longrightarrow> polled_status dsc j = Inr (Some ''Creating'')"
    using assms(1) n by simp
  have run: "wait_loop dsc name k tr (Some ''Creating'') =
     wait_loop dsc name n (tr @ concat (map (poll_round name) [k..<n])) (Some ''Creating'')"
    using wait_loop_creating[OF pre, of name tr] n by simp
  have upt: "[k..<Suc n] = [k..<n] @ [n]"
    using assms(2) by simp
  show "polled_status dsc n = Inl e \<Longrightarrow>
           wait_loop dsc name k tr (Some ''Creating'') =
           Some (tr @ concat (map (poll_round name) [k..<Suc n]), Inl (LibraryError e))"
    unfolding run upt by (simp add: wait_loop_raise)
  show "polled_status dsc n = Inr s \<Longrightarrow> s \<noteq> Some ''Creating'' \<Longrightarrow>
           wait_loop dsc name k tr (Some ''Creating'') =
           Some (tr @ concat (map (poll_round name) [k..<Suc n]), Inr (Suc n, s))"
    unfolding run upt by (simp add: wait_loop_step wait_loop_exit)
qed

text \<open>The loop as the function enters it: after the first \<^verbatim>\<open>describe()\<close>.\<close>

lemma wait_entry_settles:
  assumes "\<forall>j<n. polled_status dsc j = Inr (Some ''Creating'')"
    and "polled_status dsc 0 = Inr s0"
  shows "polled_status dsc n = Inl e \<Longrightarrow>
           wait_loop dsc name 1 [Describe name 0 :: 'o event] s0 = Some (wait_events name n, Inl (LibraryError e))"
    and "polled_status dsc n = Inr s \<Longrightarrow> s \<noteq> Some ''Creating'' \<Longrightarrow>
           wait_loop dsc name 1 [Describe name 0 :: 'o event] s0 = Some (wait_events name n, Inr (Suc n, s))"
proof -
  show "polled_status dsc n = Inl e \<Longrightarrow>
           wait_loop dsc name 1 [Describe name 0 :: 'o event] s0 = Some (wait_events name n, Inl (LibraryError e))"
  proof (cases n)
    case 0
    assume "polled_status dsc n = Inl e"
    with 0 assms(2) show ?thesis by simp
  next
    case (Suc m)
    assume e: "polled_status dsc n = Inl e"
    from assms Suc have s0: "s0 = Some ''Creating''" by auto
    have "\<forall>j. 1 \<le> j \<and> j < n \<longrightarrow> polled_status dsc j = Inr (Some ''Creating'')"
      using assms(1) by simp
    from wait_loop_settles(1)[OF this _ e, of name "[Describe name 0 :: 'o event]"] Suc
    show ?thesis by (simp add: s0 wait_events_def)
  qed
  show "polled_status dsc n = Inr s \<Longrightarrow> s \<noteq> Some ''Creating'' \<Longrightarrow>
           wait_loop dsc name 1 [Describe name 0 :: 'o event] s0 = Some (wait_events name n, Inr (Suc n, s))"
  proof (cases n)
    case 0
    assume "polled_status dsc n = Inr s" "s \<noteq> Some ''Creating''"
    with 0 assms(2) show ?thesis by (simp add: wait_loop_exit wait_events_def)
  next
    case (Suc m)
    assume s: "polled_status dsc n = Inr s" "s \<noteq> Some ''Creating''"
    from assms Suc have s0: "s0 = Some ''Creating''" by auto
    have "\<forall>j. 1 \<le> j \<and> j < n \<longrightarrow> polled_status dsc j = Inr (Some ''Creating'')"
      using assms(1) by simp
    from wait_loop_settles(2)[OF this _ s, of name "[Describe name 0 :: 'o event]"] Suc
    show ?thesis by (simp add: s0 wait_events_def)
  qed
qed

lemma polled_status_Inl: "polled_status dsc k = Inl e \<longleftrightarrow> dsc k = Inl e"
  by (simp add: polled_status_def split: sum.splits)

lemma polled_status_Inr:
  "polled_status dsc k = Inr s \<longleftrightarrow> (\<exists>d. dsc k = Inr d \<and> map_of d ''FeatureGroupStatus'' = s)"
  by (simp add: polled_status_def split: sum.splits)

text \<open>What the function does, by the first poll that does not answer \<^verbatim>\<open>Creating\<close>.\<close>

lemma wait_outcome:
  fixes dsc :: "nat \<Rightarrow> 'e + response"
  assumes "\<forall>j<n. polled_status dsc j = Inr (Some ''Creating'')"
  shows "polled_status dsc n = Inl e \<Longrightarrow>
           (wait_for_feature_group_creation_complete dsc name :: ('o, 'e, nat) outcome) =
           Some (wait_events name n, Inl (LibraryError e))"
    and "polled_status dsc n = Inr s \<Longrightarrow> s \<noteq> Some ''Creating'' \<Longrightarrow> s \<noteq> Some ''Created'' \<Longrightarrow>
           (wait_for_feature_group_creation_complete dsc name :: ('o, 'e, nat) outcome) =
           Some (wait_events name n, Inl (RuntimeError (''Failed to create feature group '' @ name)))"
    and "polled_status dsc n = Inr (Some ''Created'') \<Longrightarrow>
           (wait_for_feature_group_creation_complete dsc name :: ('o, 'e, nat) outcome) =
           Some (wait_events name n @ [Print (''FeatureGroup '' @ name @ '' successfully created.'')], Inr (Suc n))"
proof -
  show "polled_status dsc n = Inl e \<Longrightarrow>
           (wait_for_feature_group_creation_complete dsc name :: ('o, 'e, nat) outcome) =
           Some (wait_events name n, Inl (LibraryError e))"
  proof (cases n)
    case 0
    assume "polled_status dsc n = Inl e"
    with 0 show ?thesis
      by (simp add: polled_status_Inl wait_for_feature_group_creation_complete_def wait_events_def)
  next
    case (Suc m)
    assume e: "polled_status dsc n = Inl e"
    from assms Suc have "polled_status dsc 0 = Inr (Some ''Creating'')" by simp
    then obtain d where d: "dsc 0 = Inr d" "polled_status dsc 0 = Inr (map_of d ''FeatureGroupStatus'')"
      by (auto simp: polled_status_def split: sum.splits)
    from wait_entry_settles(1)[where ?'o = 'o, OF assms d(2) e, of name] d(1) show ?thesis
      by (simp add: wait_for_feature_group_creation_complete_def)
  qed
  have settled: "(wait_for_feature_group_creation_complete dsc name :: ('o, 'e, nat) outcome) =
      (if s \<noteq> Some ''Created''
       then Some (wait_events name n, Inl (RuntimeError (''Failed to create feature group '' @ name)))
       else Some (wait_events name n @ [Print (''FeatureGroup '' @ name @ '' successfully created.'')], Inr (Suc n)))"
    if s: "polled_status dsc n = Inr s" "s \<noteq> Some ''Creating''" for s
  proof -
    have "\<exists>d. dsc 0 = Inr d"
    proof (cases n)
      case 0
      with s(1) show ?thesis by (auto simp: polled_status_Inr)
    next
      case (Suc m)
      with assms have "polled_status dsc 0 = Inr (Some ''Creating'')" by simp
      then show ?thesis by (auto simp: polled_status_Inr)
    qed
    then obtain d where d: "dsc 0 = Inr d" by blast
    then have d': "polled_status dsc 0 = Inr (map_of d ''FeatureGroupStatus'')"
      by (simp add: polled_status_def)
    from wait_entry_settles(2)[where ?'o = 'o, OF assms d' s, of name] d show ?thesis
      by (simp add: wait_for_feature_group_creation_complete_def)
  qed
  show "polled_status dsc n = Inr s \<Longrightarrow> s \<noteq> Some ''Creating'' \<Longrightarrow> s \<noteq> Some ''Created'' \<Longrightarrow>
           (wait_for_feature_group_creation_complete dsc name :: ('o, 'e, nat) outcome) =
           Some (wait_events name n, Inl (RuntimeError (''Failed to create feature group '' @ name)))"
    using settled by simp
  show "polled_status dsc n = Inr (Some ''Created'') \<Longrightarrow>
           (wait_for_feature_group_creation_complete dsc name :: ('o, 'e, nat) outcome) =
           Some (wait_events name n @ [Print (''FeatureGroup '' @ name @ '' successfully created.'')], Inr (Suc n))"
    using settled[of "Some ''Created''"] by simp
qed

lemma wait_diverges:
  assumes "\<forall>j. polled_status dsc j = Inr (Some ''Creating'')"
  shows "(wait_for_feature_group_creation_complete dsc name :: ('o, 'e, nat) outcome) = None"
proof -
  from assms have "polled_status dsc 0 = Inr (Some ''Creating'')" by simp
  then obtain d where d: "dsc 0 = Inr d" "map_of d ''FeatureGroupStatus'' = Some ''Creating''"
    by (auto simp: polled_status_Inr)
  have "wait_loop dsc name 1 [Describe name 0 :: 'o event] (Some ''Creating'') = None"
    by (rule wait_loop_diverges) (use assms in simp)
  with d show ?thesis
    by (simp add: wait_for_feature_group_creation_complete_def)
qed

lemma first_unsettled:
  assumes "\<exists>n. polled_status dsc n \<noteq> Inr (Some ''Creating'')"
  obtains n where "\<forall>j<n. polled_status dsc j = Inr (Some ''Creating'')"
    and "polled_status dsc n \<noteq> Inr (Some ''Creating'')"
proof -
  let ?P = "\<lambda>n. polled_status dsc n \<noteq> Inr (Some ''Creating'')"
  from assms have "?P (LEAST n. ?P n)" by (rule LeastI_ex)
  moreover have "\<forall>j<(LEAST n. ?P n). \<not> ?P j"
    using not_less_Least by blast
  ultimately show ?thesis using that by blast
qed

lemma wait_cases:
  fixes dsc :: "nat \<Rightarrow> 'e + response"
  obtains
    (diverges) "\<forall>j. polled_status dsc j = Inr (Some ''Creating'')"
      "(wait_for_feature_group_creation_complete dsc name :: ('o, 'e, nat) outcome) = None"
  | (library) n e where "\<forall>j<n. polled_status dsc j = Inr (Some ''Creating'')"
      "polled_status dsc n = Inl e"
      "(wait_for_feature_group_creation_complete dsc name :: ('o, 'e, nat) outcome) =
         Some (wait_events name n, Inl (LibraryError e))"
  | (failed) n s where "\<forall>j<n. polled_status dsc j = Inr (Some ''Creating'')"
      "polled_status dsc n = Inr s" "s \<noteq> Some ''Creating''" "s \<noteq> Some ''Created''"
      "(wait_for_feature_group_creation_complete dsc name :: ('o, 'e, nat) outcome) =
         Some (wait_events name n, Inl (RuntimeError (''Failed to create feature group '' @ name)))"
  | (created) n where "\<forall>j<n. polled_status dsc j = Inr (Some ''Creating'')"
      "polled_status dsc n = Inr (Some ''Created'')"
      "(wait_for_feature_group_creation_complete dsc name :: ('o, 'e, nat) outcome) =
         Some (wait_events name n @ [Print (''FeatureGroup '' @ name @ '' successfully created.'')], Inr (Suc n))"
proof (cases "\<forall>j. polled_status dsc j = Inr (Some ''Creating'')")
  case True
  from diverges[OF True wait_diverges[where ?'o = 'o, OF True]] show ?thesis .
next
  case False
  then have "\<exists>n. polled_status dsc n \<noteq> Inr (Some ''Creating'')" by simp
  then obtain n where pre: "\<forall>j<n. polled_status dsc j = Inr (Some ''Creating'')"
    and n: "polled_status dsc n \<noteq> Inr (Some ''Creating'')"
    by (rule first_unsettled)
  show ?thesis
  proof (cases "polled_status dsc n")
    case (Inl e)
    from library[OF pre Inl wait_outcome(1)[where ?'o = 'o, OF pre Inl]] show ?thesis .
  next
    case (Inr s)
    with n have s: "s \<noteq> Some ''Creating''" by simp
    show ?thesis
    proof (cases "s = Some ''Created''")
      case True
      with Inr have c: "polled_status dsc n = Inr (Some ''Created'')" by simp
      from created[OF pre c wait_outcome(3)[where ?'o = 'o, OF pre c]] show ?thesis .
    next
      case False
      from failed[OF pre Inr s False wait_outcome(2)[where ?'o = 'o, OF pre Inr s False]] show ?thesis .
    qed
  qed
qed

text \<open>
  C1. \<open>wait_for_feature_group_creation_complete\<close> raises \<open>RuntimeError\<close> exactly when there
  is a first poll whose \<^verbatim>\<open>FeatureGroupStatus\<close> is not \<^verbatim>\<open>Creating\<close> (every earlier poll having
  answered \<^verbatim>\<open>Creating\<close>) and that status is not \<^verbatim>\<open>Created\<close>; it returns normally exactly
  when that status is \<^verbatim>\<open>Created\<close>.
\<close>

theorem wait_raises_iff_not_created:
  fixes dsc :: "nat \<Rightarrow> 'e + response"
  shows
  "((\<exists>tr msg. (wait_for_feature_group_creation_complete dsc name :: ('o, 'e, nat) outcome) =
        Some (tr, Inl (RuntimeError msg))) \<longleftrightarrow>
    (\<exists>n s. (\<forall>j<n. polled_status dsc j = Inr (Some ''Creating'')) \<and>
        polled_status dsc n = Inr s \<and> s \<noteq> Some ''Creating'' \<and> s \<noteq> Some ''Created'')) \<and>
   ((\<exists>tr k. (wait_for_feature_group_creation_complete dsc name :: ('o, 'e, nat) outcome) =
        Some (tr, Inr k)) \<longleftrightarrow>
    (\<exists>n. (\<forall>j<n. polled_status dsc j = Inr (Some ''Creating'')) \<and>
        polled_status dsc n = Inr (Some ''Created'')))"
proof (intro conjI iffI)
  assume "\<exists>tr msg. (wait_for_feature_group_creation_complete dsc name :: ('o, 'e, nat) outcome) =
        Some (tr, Inl (RuntimeError msg))"
  then show "\<exists>n s. (\<forall>j<n. polled_status dsc j = Inr (Some ''Creating'')) \<and>
        polled_status dsc n = Inr s \<and> s \<noteq> Some ''Creating'' \<and> s \<noteq> Some ''Created''"
    by (cases rule: wait_cases[where ?'o = 'o, of dsc name]) auto
next
  assume "\<exists>n s. (\<forall>j<n. polled_status dsc j = Inr (Some ''Creating'')) \<and>
        polled_status dsc n = Inr s \<and> s \<noteq> Some ''Creating'' \<and> s \<noteq> Some ''Created''"
  then show "\<exists>tr msg. (wait_for_feature_group_creation_complete dsc name :: ('o, 'e, nat) outcome) =
        Some (tr, Inl (RuntimeError msg))"
    using wait_outcome(2)[where ?'o = 'o, of _ dsc _ name] by blast
next
  assume "\<exists>tr k. (wait_for_feature_group_creation_complete dsc name :: ('o, 'e, nat) outcome) =
        Some (tr, Inr k)"
  then show "\<exists>n. (\<forall>j<n. polled_status dsc j = Inr (Some ''Creating'')) \<and>
        polled_status dsc n = Inr (Some ''Created'')"
    by (cases rule: wait_cases[where ?'o = 'o, of dsc name]) auto
next
  assume "\<exists>n. (\<forall>j<n. polled_status dsc j = Inr (Some ''Creating'')) \<and>
        polled_status dsc n = Inr (Some ''Created'')"
  then show "\<exists>tr k. (wait_for_feature_group_creation_complete dsc name :: ('o, 'e, nat) outcome) =
        Some (tr, Inr k)"
    using wait_outcome(3)[where ?'o = 'o, of _ dsc name] by blast
qed

lemma example_describe_polls:
  "\<forall>j<2. polled_status (example_describe final) j = Inr (Some ''Creating'')"
  "polled_status (example_describe final) 2 = Inr (Some final)"
  by (simp_all add: polled_status_def example_describe_def example_responses_def)

theorem wait_raises_iff_not_created_witness:
  "(\<exists>tr msg. (wait_for_feature_group_creation_complete (example_describe ''CreateFailed'') ''fg''
        :: (unit, unit, nat) outcome) = Some (tr, Inl (RuntimeError msg))) \<and>
   (\<exists>tr k. (wait_for_feature_group_creation_complete (example_describe ''Created'') ''fg''
        :: (unit, unit, nat) outcome) = Some (tr, Inr k))"
proof -
  have failed: "\<exists>n s. (\<forall>j<n. polled_status (example_describe ''CreateFailed'') j = Inr (Some ''Creating'')) \<and>
        polled_status (example_describe ''CreateFailed'') n = Inr s \<and> s \<noteq> Some ''Creating'' \<and> s \<noteq> Some ''Created''"
    using example_describe_polls[of "''CreateFailed''"] by (intro exI[of _ 2] exI[of _ "Some ''CreateFailed''"]) simp
  have created: "\<exists>n. (\<forall>j<n. polled_status (example_describe ''Created'') j = Inr (Some ''Creating'')) \<and>
        polled_status (example_describe ''Created'') n = Inr (Some ''Created'')"
    using example_describe_polls[of "''Created''"] by (intro exI[of _ 2]) simp
  from failed created
    wait_raises_iff_not_created[where ?'o = unit, of "example_describe ''CreateFailed''" "''fg''"]
    wait_raises_iff_not_created[where ?'o = unit, of "example_describe ''Created''" "''fg''"]
  show ?thesis by blast
qed

text \<open>The function returns or raises exactly when some poll does not answer \<^verbatim>\<open>Creating\<close>:
  by another status, by a response without the field, or by raising.\<close>

lemma wait_terminates_general:
  fixes dsc :: "nat \<Rightarrow> 'e + response"
  shows "(wait_for_feature_group_creation_complete dsc name :: ('o, 'e, nat) outcome) \<noteq> None \<longleftrightarrow>
    (\<exists>n. polled_status dsc n \<noteq> Inr (Some ''Creating''))"
proof (cases rule: wait_cases[where ?'o = 'o, of dsc name])
  case diverges
  then show ?thesis by simp
next
  case (library n e)
  from library(2) have "polled_status dsc n \<noteq> Inr (Some ''Creating'')" by simp
  with library(3) show ?thesis by blast
next
  case (failed n s)
  from failed(2,3) have "polled_status dsc n \<noteq> Inr (Some ''Creating'')" by simp
  with failed(5) show ?thesis by blast
next
  case (created n)
  from created(2) have "polled_status dsc n \<noteq> Inr (Some ''Creating'')" by simp
  with created(3) show ?thesis by blast
qed

text \<open>When every \<^verbatim>\<open>describe()\<close> returns, the function ends exactly when some poll returns a
  status other than \<^verbatim>\<open>Creating\<close>.\<close>

lemma wait_over_responses:
  fixes responses :: "nat \<Rightarrow> response"
  shows
  "((wait_for_feature_group_creation_complete (\<lambda>k. Inr (responses k) :: 'e + response) name
        :: ('o, 'e, nat) outcome) \<noteq> None \<longleftrightarrow>
      (\<exists>n. map_of (responses n) ''FeatureGroupStatus'' \<noteq> Some ''Creating'')) \<and>
   ((wait_for_feature_group_creation_complete (\<lambda>k. Inr (responses k) :: 'e + response) name
        :: ('o, 'e, nat) outcome) = None \<longleftrightarrow>
      (\<forall>n. map_of (responses n) ''FeatureGroupStatus'' = Some ''Creating''))"
proof -
  have "polled_status (\<lambda>k. Inr (responses k) :: 'e + response) n = Inr (map_of (responses n) ''FeatureGroupStatus'')" for n
    by (simp add: polled_status_def)
  with wait_terminates_general[where ?'o = 'o and ?'e = 'e, of "\<lambda>k. Inr (responses k)" name]
  have "(wait_for_feature_group_creation_complete (\<lambda>k. Inr (responses k) :: 'e + response) name
        :: ('o, 'e, nat) outcome) \<noteq> None \<longleftrightarrow>
      (\<exists>n. map_of (responses n) ''FeatureGroupStatus'' \<noteq> Some ''Creating'')"
    by simp
  then show ?thesis by blast
qed

lemma polled_status_settled:
  "polled_status dsc n \<noteq> Inr (Some ''Creating'') \<longleftrightarrow>
     (\<exists>e. dsc n = Inl e) \<or> (\<exists>d. dsc n = Inr d \<and> map_of d ''FeatureGroupStatus'' \<noteq> Some ''Creating'')"
  by (cases "dsc n") (simp_all add: polled_status_def)

text \<open>
  C10, as stated, fails: the function also terminates when a \<^verbatim>\<open>describe()\<close> call raises,
  although no poll has then returned a status different from \<^verbatim>\<open>Creating\<close>. With a feature
  group whose \<^verbatim>\<open>describe()\<close> raises (at every call, so no poll returns any status), the
  function ends at its first line with that exception.
\<close>

theorem wait_ends_when_describe_raises_counterexample:
  "(wait_for_feature_group_creation_complete example_describe_raises ''fg'' :: (unit, unit, nat) outcome) =
     Some ([Describe ''fg'' 0], Inl (LibraryError ())) \<and>
   polled_status example_describe_raises 0 = Inl ()"
  by (simp add: wait_for_feature_group_creation_complete_def example_describe_raises_def polled_status_def)

text \<open>
  C10, amended. The function terminates (by returning or by raising) exactly when some call
  of \<^verbatim>\<open>feature_group.describe()\<close> raises or returns a \<^verbatim>\<open>FeatureGroupStatus\<close> different
  from \<^verbatim>\<open>Creating\<close> (a response without the field counts as different); it never
  terminates exactly when every poll returns \<^verbatim>\<open>Creating\<close>: the loop has no retry limit
  and no timeout.
\<close>

theorem wait_terminates_iff:
  fixes dsc :: "nat \<Rightarrow> 'e + response"
  shows
  "((wait_for_feature_group_creation_complete dsc name :: ('o, 'e, nat) outcome) \<noteq> None \<longleftrightarrow>
      (\<exists>n. (\<exists>e. dsc n = Inl e) \<or>
           (\<exists>d. dsc n = Inr d \<and> map_of d ''FeatureGroupStatus'' \<noteq> Some ''Creating''))) \<and>
   ((wait_for_feature_group_creation_complete dsc name :: ('o, 'e, nat) outcome) = None \<longleftrightarrow>
      (\<forall>n. \<exists>d. dsc n = Inr d \<and> map_of d ''FeatureGroupStatus'' = Some ''Creating''))"
proof -
  have ends: "(wait_for_feature_group_creation_complete dsc name :: ('o, 'e, nat) outcome) \<noteq> None \<longleftrightarrow>
      (\<exists>n. (\<exists>e. dsc n = Inl e) \<or>
           (\<exists>d. dsc n = Inr d \<and> map_of d ''FeatureGroupStatus'' \<noteq> Some ''Creating''))"
    using wait_terminates_general[where ?'o = 'o, of dsc name]
    by (simp only: polled_status_settled)
  have "(\<forall>n. \<exists>d. dsc n = Inr d \<and> map_of d ''FeatureGroupStatus'' = Some ''Creating'') \<longleftrightarrow>
        \<not> (\<exists>n. (\<exists>e. dsc n = Inl e) \<or>
           (\<exists>d. dsc n = Inr d \<and> map_of d ''FeatureGroupStatus'' \<noteq> Some ''Creating''))"
  proof -
    have "(\<exists>d. dsc n = Inr d \<and> map_of d ''FeatureGroupStatus'' = Some ''Creating'') \<longleftrightarrow>
          \<not> ((\<exists>e. dsc n = Inl e) \<or>
             (\<exists>d. dsc n = Inr d \<and> map_of d ''FeatureGroupStatus'' \<noteq> Some ''Creating''))" for n
      by (cases "dsc n") simp_all
    then show ?thesis by simp
  qed
  with ends show ?thesis by blast
qed

theorem wait_terminates_iff_witness:
  "(wait_for_feature_group_creation_complete example_describe_raises ''fg'' :: (unit, unit, nat) outcome) \<noteq> None \<and>
   (wait_for_feature_group_creation_complete (example_describe ''Created'') ''fg'' :: (unit, unit, nat) outcome) \<noteq> None \<and>
   (wait_for_feature_group_creation_complete example_describe_creating ''fg'' :: (unit, unit, nat) outcome) = None"
proof -
  have raises: "\<exists>n. (\<exists>e. example_describe_raises n = Inl e) \<or>
      (\<exists>d. example_describe_raises n = Inr d \<and> map_of d ''FeatureGroupStatus'' \<noteq> Some ''Creating'')"
    by (rule exI[of _ 0], rule disjI1) (simp add: example_describe_raises_def)
  have settles: "\<exists>n. (\<exists>e. example_describe ''Created'' n = Inl e) \<or>
      (\<exists>d. example_describe ''Created'' n = Inr d \<and> map_of d ''FeatureGroupStatus'' \<noteq> Some ''Creating'')"
    by (rule exI[of _ 2], rule disjI2) (simp add: example_describe_def example_responses_def)
  have creating: "\<forall>n. \<exists>d. example_describe_creating n = Inr d \<and>
      map_of d ''FeatureGroupStatus'' = Some ''Creating''"
    by (simp add: example_describe_creating_def)
  have a: "(wait_for_feature_group_creation_complete example_describe_raises ''fg''
        :: (unit, unit, nat) outcome) \<noteq> None"
    by (rule wait_terminates_iff[where ?'o = unit, of example_describe_raises "''fg''",
          THEN conjunct1, THEN iffD2, OF raises])
  have b: "(wait_for_feature_group_creation_complete (example_describe ''Created'') ''fg''
        :: (unit, unit, nat) outcome) \<noteq> None"
    by (rule wait_terminates_iff[where ?'o = unit, of "example_describe ''Created''" "''fg''",
          THEN conjunct1, THEN iffD2, OF settles])
  have c: "(wait_for_feature_group_creation_complete example_describe_creating ''fg''
        :: (unit, unit, nat) outcome) = None"
    by (rule wait_terminates_iff[where ?'o = unit, of example_describe_creating "''fg''",
          THEN conjunct2, THEN iffD2, OF creating])
  from a b c show ?thesis by simp
qed

section \<open>Runs of the notebook\<close>

lemma and_then_Inl: "and_then (Some (tr, Inl err)) f = Some (tr, Inl err)"
  by (simp add: and_then_def)

lemma and_then_Inr:
  "and_then (Some (tr, Inr x)) f = (case f x of None \<Rightarrow> None | Some (tr', r) \<Rightarrow> Some (tr @ tr', r))"
  by (simp add: and_then_def)

lemmas run_simps = and_then_Inl and_then_Inr lib_call_def emit_def computed_def

lemma and_then_cases:
  assumes "and_then m f = Some (tr, res)"
  obtains (stopped) err where "m = Some (tr, Inl err)" "res = Inl err"
  | (continued) tr1 x tr2 where "m = Some (tr1, Inr x)" "f x = Some (tr2, res)" "tr = tr1 @ tr2"
  using assms by (auto simp: and_then_def split: option.splits sum.splits)

lemma cell_session_eq:
  "cell_session env =
     Some ([NewSession], case new_session env of Inl e \<Rightarrow> Inl (LibraryError e) | Inr x \<Rightarrow> Inr x)"
  by (simp add: cell_session_def run_simps)

lemma cell_bucket_eq:
  "cell_bucket env =
     (case default_bucket env of
        Inl e \<Rightarrow> Some ([DefaultBucket], Inl (LibraryError e))
      | Inr b \<Rightarrow> Some ([DefaultBucket, Print b], Inr b))"
  by (simp add: cell_bucket_def run_simps split: sum.splits)

lemma cell_role_eq:
  "cell_role env =
     (case get_execution_role env of
        Inl e \<Rightarrow> Some ([GetExecutionRole], Inl (LibraryError e))
      | Inr r \<Rightarrow> Some ([GetExecutionRole, Print r], Inr r))"
  by (simp add: cell_role_def run_simps split: sum.splits)

lemma cell_load_eq:
  "cell_load env b =
     (case s3_get_object env b data_file_key of
        Inl e \<Rightarrow> Some ([S3GetObject b data_file_key], Inl (LibraryError e))
      | Inr body \<Rightarrow>
          (case read_csv env body of
             Inl e \<Rightarrow> Some ([S3GetObject b data_file_key, ReadCsv body], Inl (LibraryError e))
           | Inr df \<Rightarrow> Some ([S3GetObject b data_file_key, ReadCsv body, Display (ShownFrame (head df))], Inr df)))"
  by (simp add: cell_load_def run_simps split: sum.splits)

lemma cell_prepare_eq:
  "cell_prepare L env df =
     (case cast_object_to_string L df of
        (df1, Some err) \<Rightarrow> Some ([], Inl err)
      | (df1, None) \<Rightarrow>
          (case load_feature_definitions env fd_feature_group_name (set_event_time L (current_time_sec env) df1) of
             Inl e \<Rightarrow> Some ([LoadFeatureDefinitions fd_feature_group_name (set_event_time L (current_time_sec env) df1)],
                        Inl (LibraryError e))
           | Inr _ \<Rightarrow> Some ([LoadFeatureDefinitions fd_feature_group_name (set_event_time L (current_time_sec env) df1)],
                        Inr (set_event_time L (current_time_sec env) df1))))"
  by (simp add: cell_prepare_def run_simps mutated_def split: sum.splits option.splits prod.splits)

lemma cell_describe_eq:
  "cell_describe env k =
     (case describe env fd_feature_group_name k of
        Inl e \<Rightarrow> Some ([Describe fd_feature_group_name k], Inl (LibraryError e))
      | Inr d \<Rightarrow> Some ([Describe fd_feature_group_name k, Display (ShownDescription d)], Inr ()))"
  by (simp add: cell_describe_def run_simps split: sum.splits)

lemma cell_ingest_eq:
  "cell_ingest env df =
     (case ingest env fd_feature_group_name df 3 True of
        Inl e \<Rightarrow> Some ([Ingest fd_feature_group_name df 3 True], Inl (LibraryError e))
      | Inr _ \<Rightarrow> Some ([Ingest fd_feature_group_name df 3 True, Display ShownIngestionManager], Inr ()))"
  by (simp add: cell_ingest_def run_simps split: sum.splits)

lemma str_int_100: "str_int 100 = ''100''"
  by (simp add: str_int_def str_nat.simps)

lemma cell_get_record_eq:
  "cell_get_record env =
     (case get_record env fd_feature_group_name ''100'' of
        Inl e \<Rightarrow> Some ([GetRecord fd_feature_group_name ''100''], Inl (LibraryError e))
      | Inr r \<Rightarrow> Some ([GetRecord fd_feature_group_name ''100'', Display (ShownRecord r)], Inr r))"
  by (simp add: cell_get_record_def run_simps str_int_100 split: sum.splits)

lemma step_session:
  assumes "and_then (cell_session env) f = Some (tr, res)"
  obtains (failed) e where "new_session env = Inl e" "tr = [NewSession]" "res = Inl (LibraryError e)"
  | (ok) tr' where "new_session env = Inr ()" "f () = Some (tr', res)" "tr = NewSession # tr'"
  using assms by (auto simp: cell_session_eq and_then_Inl and_then_Inr split: sum.splits option.splits)

lemma step_bucket:
  assumes "and_then (cell_bucket env) f = Some (tr, res)"
  obtains (failed) e where "default_bucket env = Inl e" "tr = [DefaultBucket]" "res = Inl (LibraryError e)"
  | (ok) b tr' where "default_bucket env = Inr b" "f b = Some (tr', res)" "tr = [DefaultBucket, Print b] @ tr'"
  using assms by (auto simp: cell_bucket_eq and_then_Inl and_then_Inr split: sum.splits option.splits)

lemma step_role:
  assumes "and_then (cell_role env) f = Some (tr, res)"
  obtains (failed) e where "get_execution_role env = Inl e" "tr = [GetExecutionRole]" "res = Inl (LibraryError e)"
  | (ok) r tr' where "get_execution_role env = Inr r" "f r = Some (tr', res)" "tr = [GetExecutionRole, Print r] @ tr'"
  using assms by (auto simp: cell_role_eq and_then_Inl and_then_Inr split: sum.splits option.splits)

lemma step_load:
  assumes "and_then (cell_load env b) f = Some (tr, res)"
  obtains (fetch_failed) e where "s3_get_object env b data_file_key = Inl e"
      "tr = [S3GetObject b data_file_key]" "res = Inl (LibraryError e)"
  | (parse_failed) body e where "s3_get_object env b data_file_key = Inr body" "read_csv env body = Inl e"
      "tr = [S3GetObject b data_file_key, ReadCsv body]" "res = Inl (LibraryError e)"
  | (ok) body df tr' where "s3_get_object env b data_file_key = Inr body" "read_csv env body = Inr df"
      "f df = Some (tr', res)" "tr = load_events b body df @ tr'"
  using assms
  by (auto simp: cell_load_eq and_then_Inl and_then_Inr load_events_def split: sum.splits option.splits)

lemma step_prepare:
  assumes "and_then (cell_prepare L env df) f = Some (tr, res)"
  obtains (cast_failed) df1 err where "cast_object_to_string L df = (df1, Some err)" "tr = []" "res = Inl err"
  | (register_failed) df' e where "prepared L env df df'"
      "load_feature_definitions env fd_feature_group_name df' = Inl e"
      "tr = [LoadFeatureDefinitions fd_feature_group_name df']" "res = Inl (LibraryError e)"
  | (ok) df' tr' where "prepared L env df df'"
      "load_feature_definitions env fd_feature_group_name df' = Inr ()"
      "f df' = Some (tr', res)" "tr = LoadFeatureDefinitions fd_feature_group_name df' # tr'"
  using assms
  by (auto simp: cell_prepare_eq and_then_Inl and_then_Inr prepared_def
      split: sum.splits option.splits prod.splits)

lemma step_describe:
  assumes "and_then (cell_describe env k) f = Some (tr, res)"
  obtains (failed) e where "describe env fd_feature_group_name k = Inl e"
      "tr = [Describe fd_feature_group_name k]" "res = Inl (LibraryError e)"
  | (ok) d tr' where "describe env fd_feature_group_name k = Inr d" "f () = Some (tr', res)"
      "tr = [Describe fd_feature_group_name k, Display (ShownDescription d)] @ tr'"
  using assms by (auto simp: cell_describe_eq and_then_Inl and_then_Inr split: sum.splits option.splits)

lemma step_ingest:
  assumes "and_then (cell_ingest env df) f = Some (tr, res)"
  obtains (failed) e where "ingest env fd_feature_group_name df 3 True = Inl e"
      "tr = [Ingest fd_feature_group_name df 3 True]" "res = Inl (LibraryError e)"
  | (ok) tr' where "ingest env fd_feature_group_name df 3 True = Inr ()" "f () = Some (tr', res)"
      "tr = [Ingest fd_feature_group_name df 3 True, Display ShownIngestionManager] @ tr'"
  using assms by (auto simp: cell_ingest_eq and_then_Inl and_then_Inr split: sum.splits option.splits)

lemma step_get_record:
  assumes "cell_get_record env = Some (tr, res)"
  obtains (failed) e where "get_record env fd_feature_group_name ''100'' = Inl e"
      "tr = [GetRecord fd_feature_group_name ''100'']" "res = Inl (LibraryError e)"
  | (ok) r where "get_record env fd_feature_group_name ''100'' = Inr r"
      "tr = [GetRecord fd_feature_group_name ''100'', Display (ShownRecord r)]" "res = Inr r"
  using assms by (auto simp: cell_get_record_eq split: sum.splits)

lemma cell_create_eq:
  "cell_create env b r =
     (case create_result env b r of
        Inl e \<Rightarrow> Some ([create_event b r], Inl (LibraryError e))
      | Inr _ \<Rightarrow>
          (case wait_for_feature_group_creation_complete (describe env fd_feature_group_name) fd_feature_group_name of
             None \<Rightarrow> None
           | Some (tr, res) \<Rightarrow> Some (create_event b r # tr, res)))"
  by (simp add: cell_create_def create_result_def create_event_def run_simps split: sum.splits option.splits)

lemma step_create:
  fixes env :: "('o, 'e) env" and f :: "nat \<Rightarrow> ('o, 'e, 'a) outcome"
  assumes "and_then (cell_create env b r) f = Some (tr, res)"
  obtains (create_failed) e where "create_result env b r = Inl e"
      "tr = [create_event b r]" "res = Inl (LibraryError e)"
  | (poll_raised) n e where "create_result env b r = Inr ()" "creating_until env n"
      "describe env fd_feature_group_name n = Inl e"
      "tr = create_event b r # wait_events fd_feature_group_name n" "res = Inl (LibraryError e)"
  | (not_created) n s where "create_result env b r = Inr ()" "creating_until env n"
      "polled_status (describe env fd_feature_group_name) n = Inr s"
      "s \<noteq> Some ''Creating''" "s \<noteq> Some ''Created''"
      "tr = create_event b r # wait_events fd_feature_group_name n"
      "res = Inl (RuntimeError (''Failed to create feature group '' @ fd_feature_group_name))"
  | (ok) n tr' where "create_result env b r = Inr ()" "creating_until env n"
      "polled_status (describe env fd_feature_group_name) n = Inr (Some ''Created'')"
      "f (Suc n) = Some (tr', res)"
      "tr = create_event b r # wait_events fd_feature_group_name n @ created_message # tr'"
proof (cases "create_result env b r")
  case (Inl e)
  with assms create_failed show ?thesis
    by (simp add: cell_create_eq and_then_Inl)
next
  case (Inr u)
  then have cr: "create_result env b r = Inr ()" by simp
  let ?w = "wait_for_feature_group_creation_complete (describe env fd_feature_group_name) fd_feature_group_name
              :: ('o, 'e, nat) outcome"
  have run: "and_then (case ?w of None \<Rightarrow> None | Some (tr, res) \<Rightarrow> Some (create_event b r # tr, res)) f
             = Some (tr, res)"
    using assms cr by (simp add: cell_create_eq)
  show ?thesis
  proof (cases rule: wait_cases[where ?'o = 'o, of "describe env fd_feature_group_name" fd_feature_group_name])
    case diverges
    with run show ?thesis by (simp add: and_then_def)
  next
    case (library n e)
    from library(3) run have "tr = create_event b r # wait_events fd_feature_group_name n" "res = Inl (LibraryError e)"
      by (simp_all add: and_then_Inl)
    with poll_raised[OF cr _ _ this] library(1,2) show ?thesis
      by (simp add: creating_until_def polled_status_Inl)
  next
    case (failed n s)
    from failed(5) run have "tr = create_event b r # wait_events fd_feature_group_name n"
      "res = Inl (RuntimeError (''Failed to create feature group '' @ fd_feature_group_name))"
      by (simp_all add: and_then_Inl)
    with not_created[OF cr _ failed(2,3,4) this] failed(1) show ?thesis
      by (simp add: creating_until_def)
  next
    case (created n)
    from created(3) run obtain tr' where "f (Suc n) = Some (tr', res)"
      "tr = create_event b r # wait_events fd_feature_group_name n @ created_message # tr'"
      by (auto simp: and_then_Inr created_message_def split: option.splits)
    with ok[OF cr _ created(2) this] created(1) show ?thesis
      by (simp add: creating_until_def)
  qed
qed

text \<open>Every run of the notebook that ends is one of these fourteen: it stops at the first
  call that raises, or at the \<open>RuntimeError\<close> of the wait, or it completes.\<close>

lemma notebook_cases [consumes 1, case_names session_failed bucket_failed role_failed fetch_failed
    parse_failed cast_failed register_failed create_failed poll_raised not_created describe_failed
    ingest_failed lookup_failed completed]:
  fixes env :: "('o, 'e) env"
  assumes "notebook L env = Some (tr, res)"
  obtains
    e where "new_session env = Inl e" "tr = [NewSession]" "res = Inl (LibraryError e)"
  | e where "new_session env = Inr ()" "default_bucket env = Inl e"
      "tr = [NewSession, DefaultBucket]" "res = Inl (LibraryError e)"
  | b e where "new_session env = Inr ()" "default_bucket env = Inr b" "get_execution_role env = Inl e"
      "tr = [NewSession, DefaultBucket, Print b, GetExecutionRole]" "res = Inl (LibraryError e)"
  | b r e where "new_session env = Inr ()" "default_bucket env = Inr b" "get_execution_role env = Inr r"
      "s3_get_object env b data_file_key = Inl e"
      "tr = setup_events b r @ [S3GetObject b data_file_key]" "res = Inl (LibraryError e)"
  | b r body e where "new_session env = Inr ()" "default_bucket env = Inr b" "get_execution_role env = Inr r"
      "s3_get_object env b data_file_key = Inr body" "read_csv env body = Inl e"
      "tr = setup_events b r @ [S3GetObject b data_file_key, ReadCsv body]" "res = Inl (LibraryError e)"
  | b r body df df1 err where "loaded env b r body df" "cast_object_to_string L df = (df1, Some err)"
      "tr = setup_events b r @ load_events b body df" "res = Inl err"
  | b r body df df' e where "loaded env b r body df" "prepared L env df df'"
      "load_feature_definitions env fd_feature_group_name df' = Inl e"
      "tr = setup_events b r @ load_events b body df @ [LoadFeatureDefinitions fd_feature_group_name df']"
      "res = Inl (LibraryError e)"
  | b r body df df' e where "registered L env b r body df df'" "create_result env b r = Inl e"
      "tr = events_to_create b r body df df'" "res = Inl (LibraryError e)"
  | b r body df df' n e where "registered L env b r body df df'" "create_result env b r = Inr ()"
      "creating_until env n" "describe env fd_feature_group_name n = Inl e"
      "tr = events_to_create b r body df df' @ wait_events fd_feature_group_name n"
      "res = Inl (LibraryError e)"
  | b r body df df' n s where "registered L env b r body df df'" "create_result env b r = Inr ()"
      "creating_until env n" "polled_status (describe env fd_feature_group_name) n = Inr s"
      "s \<noteq> Some ''Creating''" "s \<noteq> Some ''Created''"
      "tr = events_to_create b r body df df' @ wait_events fd_feature_group_name n"
      "res = Inl (RuntimeError (''Failed to create feature group '' @ fd_feature_group_name))"
  | b r body df df' n e where "registered L env b r body df df'" "created env b r n"
      "describe env fd_feature_group_name (Suc n) = Inl e"
      "tr = events_to_created b r body df df' n @ [Describe fd_feature_group_name (Suc n)]"
      "res = Inl (LibraryError e)"
  | b r body df df' n d e where "registered L env b r body df df'" "created env b r n"
      "describe env fd_feature_group_name (Suc n) = Inr d"
      "ingest env fd_feature_group_name df' 3 True = Inl e"
      "tr = events_to_created b r body df df' n @
         [Describe fd_feature_group_name (Suc n), Display (ShownDescription d),
          Ingest fd_feature_group_name df' 3 True]"
      "res = Inl (LibraryError e)"
  | b r body df df' n d e where "registered L env b r body df df'" "created env b r n"
      "describe env fd_feature_group_name (Suc n) = Inr d"
      "ingest env fd_feature_group_name df' 3 True = Inr ()"
      "get_record env fd_feature_group_name ''100'' = Inl e"
      "tr = events_to_created b r body df df' n @
         [Describe fd_feature_group_name (Suc n), Display (ShownDescription d),
          Ingest fd_feature_group_name df' 3 True, Display ShownIngestionManager,
          GetRecord fd_feature_group_name ''100'']"
      "res = Inl (LibraryError e)"
  | b r body df df' n d rec where "registered L env b r body df df'" "created env b r n"
      "describe env fd_feature_group_name (Suc n) = Inr d"
      "ingest env fd_feature_group_name df' 3 True = Inr ()"
      "get_record env fd_feature_group_name ''100'' = Inr rec"
      "tr = events_to_created b r body df df' n @
         [Describe fd_feature_group_name (Suc n), Display (ShownDescription d),
          Ingest fd_feature_group_name df' 3 True, Display ShownIngestionManager,
          GetRecord fd_feature_group_name ''100'', Display (ShownRecord rec)]"
      "res = Inr rec"
  using assms unfolding notebook_def
proof (cases rule: step_session)
  case (failed e)
  then show ?thesis using that(1) by blast
next
  case s1: (ok t1)
  from s1(2) show ?thesis
  proof (cases rule: step_bucket)
    case (failed e)
    with s1 show ?thesis using that(2) by simp
  next
    case s2: (ok b t2)
    from s2(2) show ?thesis
    proof (cases rule: step_role)
      case (failed e)
      with s1 s2 show ?thesis using that(3) by simp
    next
      case s3: (ok r t3)
      have tr3: "tr = setup_events b r @ t3"
        using s1(3) s2(3) s3(3) by (simp add: setup_events_def)
      from s3(2) show ?thesis
      proof (cases rule: step_load)
        case (fetch_failed e)
        with s1 s2 s3 tr3 show ?thesis using that(4) by simp
      next
        case (parse_failed body e)
        with s1 s2 s3 tr3 show ?thesis using that(5) by simp
      next
        case s4: (ok body df t4)
        have ld: "loaded env b r body df"
          using s1(1) s2(1) s3(1) s4(1,2) by (simp add: loaded_def)
        have tr4: "tr = setup_events b r @ load_events b body df @ t4"
          using tr3 s4(4) by simp
        from s4(3) show ?thesis
        proof (cases rule: step_prepare)
          case (cast_failed df1 err)
          with ld tr4 show ?thesis using that(6) by simp
        next
          case (register_failed df' e)
          with ld tr4 show ?thesis using that(7) by simp
        next
          case s5: (ok df' t5)
          have rg: "registered L env b r body df df'"
            using ld s5(1,2) by (simp add: registered_def)
          have tr5: "tr = setup_events b r @ load_events b body df @
              LoadFeatureDefinitions fd_feature_group_name df' # t5"
            using tr4 s5(4) by simp
          from s5(3) show ?thesis
          proof (cases rule: step_create)
            case (create_failed e)
            with rg tr5 show ?thesis using that(8) by (simp add: events_to_create_def)
          next
            case (poll_raised n e)
            with rg tr5 show ?thesis using that(9) by (simp add: events_to_create_def)
          next
            case (not_created n s)
            with rg tr5 show ?thesis using that(10) by (simp add: events_to_create_def)
          next
            case s6: (ok n t6)
            have cr: "created env b r n"
              using s6(1,2,3) by (simp add: created_def)
            have tr6: "tr = events_to_created b r body df df' n @ t6"
              using tr5 s6(5) by (simp add: events_to_created_def events_to_create_def)
            from s6(4) show ?thesis
            proof (cases rule: step_describe)
              case (failed e)
              with rg cr tr6 show ?thesis using that(11) by simp
            next
              case s7: (ok d t7)
              from s7(2) show ?thesis
              proof (cases rule: step_ingest)
                case (failed e)
                with rg cr tr6 s7 show ?thesis using that(12) by simp
              next
                case s8: (ok t8)
                from s8(2) show ?thesis
                proof (cases rule: step_get_record)
                  case (failed e)
                  with rg cr tr6 s7 s8 show ?thesis using that(13) by simp
                next
                  case (ok rec)
                  with rg cr tr6 s7 s8 show ?thesis using that(14) by simp
                qed
              qed
            qed
          qed
        qed
      qed
    qed
  qed
qed



text \<open>The run in the example environment.\<close>

lemma example_prepare:
  "set_event_time example_lib 1629776605
     \<lparr>nrows = 2, columns =
     [(''merchant'', \<lparr>dtype = StringDtype, vals = [PyStr ''acme'', PyStr ''nan'']\<rparr>),
      (''amount'', \<lparr>dtype = Float64, vals = [PyObj (OFloat 15), PyObj (OFloat 7)]\<rparr>),
      (''event_time'', \<lparr>dtype = StringDtype, vals = [PyStr ''2021-08-24'', PyStr ''5'']\<rparr>)]\<rparr>
   = example_prepared"
  by (simp add: set_event_time_def setitem_def event_time_series_def example_lib_def
      example_prepared_def event_time_feature_name_def numeral_2_eq_2)

lemma example_wait:
  "(wait_for_feature_group_creation_complete (example_describe ''Created'') ''transactionfeaturegroup001''
      :: (example_obj, unit, nat) outcome) =
   Some ([Describe ''transactionfeaturegroup001'' 0,
      Print ''Waiting for Feature Group Creation'', Sleep 5, Describe ''transactionfeaturegroup001'' 1,
      Print ''Waiting for Feature Group Creation'', Sleep 5, Describe ''transactionfeaturegroup001'' 2,
      Print ''FeatureGroup transactionfeaturegroup001 successfully created.''], Inr 3)"
  by (simp add: wait_for_feature_group_creation_complete_def wait_loop.simps poll_round_def
      example_describe_def example_responses_def numeral_3_eq_3)

lemma example_run:
  "notebook example_lib example_env = Some (example_trace, Inr [(''record_id'', ''100'')])"
proof -
  have c1: "cell_session example_env = Some ([NewSession], Inr ())"
    by (simp add: cell_session_eq example_env_def)
  have c2: "cell_bucket example_env = Some ([DefaultBucket, Print ''bucket''], Inr ''bucket'')"
    by (simp add: cell_bucket_eq example_env_def)
  have c3: "cell_role example_env = Some ([GetExecutionRole, Print ''role''], Inr ''role'')"
    by (simp add: cell_role_eq example_env_def)
  have c4: "cell_load example_env ''bucket'' =
      Some ([S3GetObject ''bucket'' ''data/fraud-detection/credit-dataset.csv'', ReadCsv ''csv'',
             Display (ShownFrame example_frame)], Inr example_frame)"
    by (simp add: cell_load_eq example_env_def data_file_key_def head_def example_frame_def)
  have c5: "cell_prepare example_lib example_env example_frame =
      Some ([LoadFeatureDefinitions ''transactionfeaturegroup001'' example_prepared], Inr example_prepared)"
    by (simp add: cell_prepare_eq example_frame_cast)
       (simp add: example_env_def example_prepare fd_feature_group_name_def)
  have c6: "cell_create example_env ''bucket'' ''role'' =
      Some ([Create ''transactionfeaturegroup001'' ''s3://bucket/sagemaker-featurestore-demo''
               ''record_id'' ''event_time'' ''role'' True,
             Describe ''transactionfeaturegroup001'' 0,
      Print ''Waiting for Feature Group Creation'', Sleep 5, Describe ''transactionfeaturegroup001'' 1,
      Print ''Waiting for Feature Group Creation'', Sleep 5, Describe ''transactionfeaturegroup001'' 2,
      Print ''FeatureGroup transactionfeaturegroup001 successfully created.''], Inr 3)"
    by (simp add: cell_create_eq create_result_def create_event_def example_env_def
        fd_feature_group_name_def example_wait prefix_name_def record_identifier_feature_name_def
        event_time_feature_name_def)
  have c7: "cell_describe example_env 3 =
      Some ([Describe ''transactionfeaturegroup001'' 3,
             Display (ShownDescription (example_responses ''Created'' 3))], Inr ())"
    by (simp add: cell_describe_eq example_env_def example_describe_def fd_feature_group_name_def)
  have c8: "cell_ingest example_env example_prepared =
      Some ([Ingest ''transactionfeaturegroup001'' example_prepared 3 True,
             Display ShownIngestionManager], Inr ())"
    by (simp add: cell_ingest_eq example_env_def fd_feature_group_name_def)
  have c9: "cell_get_record example_env =
      Some ([GetRecord ''transactionfeaturegroup001'' ''100'',
             Display (ShownRecord [(''record_id'', ''100'')])], Inr [(''record_id'', ''100'')])"
    by (simp add: cell_get_record_eq example_env_def fd_feature_group_name_def)
  show ?thesis
    by (simp add: notebook_def c1 c2 c3 c4 c5 c6 c7 c8 c9 and_then_Inr example_trace_def)
qed










section \<open>Properties of the runs\<close>

lemma wait_events_0: "wait_events name 0 = [Describe name 0]"
  by (simp add: wait_events_def)

lemma wait_events_Suc: "wait_events name (Suc n) = wait_events name n @ poll_round name (Suc n)"
  by (simp add: wait_events_def)

lemma filter_wait_events:
  assumes "\<And>k. \<not> P (Describe name k)" "\<And>s. \<not> P (Print s)" "\<And>t. \<not> P (Sleep t)"
  shows "filter P (wait_events name n) = []"
  by (induction n) (simp_all add: wait_events_0 wait_events_Suc poll_round_def assms)

lemma wait_events_no_get_record [simp]: "filter is_get_record (wait_events name n) = []"
  by (rule filter_wait_events) simp_all

lemma wait_events_no_ingest [simp]: "filter is_ingest (wait_events name n) = []"
  by (rule filter_wait_events) simp_all

lemma wait_events_no_create [simp]: "filter is_create (wait_events name n) = []"
  by (rule filter_wait_events) simp_all

lemma wait_events_no_load [simp]: "filter is_load_feature_definitions (wait_events name n) = []"
  by (rule filter_wait_events) simp_all

lemma takeWhile_wait_events:
  assumes "filter P (wait_events name n) = []"
  shows "takeWhile (\<lambda>e. \<not> P e) (wait_events name n @ xs) = wait_events name n @ takeWhile (\<lambda>e. \<not> P e) xs"
  using assms by (simp add: filter_empty_conv takeWhile_append2)

lemma operations_Nil [simp]: "operations [] = []"
  by (simp add: operations_def)

lemma operations_Cons [simp]:
  "operations (e # tr) = (case operation_of e of None \<Rightarrow> operations tr | Some p \<Rightarrow> p # operations tr)"
  by (simp add: operations_def split: option.splits)

lemma operations_append [simp]: "operations (xs @ ys) = operations xs @ operations ys"
  by (induction xs) (simp_all split: option.splits)

lemma operations_wait_events [simp]:
  "operations (wait_events name n) = replicate (Suc n) PollStatus"
  by (induction n) (simp_all add: wait_events_0 wait_events_Suc poll_round_def replicate_append_same)

lemma mem_wait_events:
  "e \<in> set (wait_events name n) \<Longrightarrow>
     (\<exists>k\<le>n. e = Describe name k) \<or> e = Print ''Waiting for Feature Group Creation'' \<or> e = Sleep 5"
proof (induction n)
  case 0
  then show ?case by (simp add: wait_events_0)
next
  case (Suc n)
  then show ?case
    by (auto simp: wait_events_Suc poll_round_def le_Suc_eq)
qed


lemma wait_events_kinds [simp]:
  "\<forall>e\<in>set (wait_events name n). \<not> is_get_record e"
  "\<forall>e\<in>set (wait_events name n). \<not> is_ingest e"
  "\<forall>e\<in>set (wait_events name n). \<not> is_create e"
  "\<forall>e\<in>set (wait_events name n). \<not> is_load_feature_definitions e"
  using wait_events_no_get_record[of name n] wait_events_no_ingest[of name n]
    wait_events_no_create[of name n] wait_events_no_load[of name n]
  by (simp_all only: filter_empty_conv)

lemma wait_events_not_mem [simp]:
  "GetRecord a b \<notin> set (wait_events name n)"
  "Ingest a df w c \<notin> set (wait_events name n)"
  "Create a b u v r c \<notin> set (wait_events name n)"
  "LoadFeatureDefinitions a df \<notin> set (wait_events name n)"
  using wait_events_kinds[of name n] by fastforce+

lemma takeWhile_wait_events_all:
  assumes "filter P (wait_events name n) = []"
  shows "takeWhile (\<lambda>e. \<not> P e) (wait_events name n) = wait_events name n"
  using takeWhile_wait_events[OF assms, of "[]"] by simp

lemmas trace_defs = setup_events_def load_events_def events_to_create_def events_to_created_def
  create_event_def created_message_def

lemmas name_defs = fd_feature_group_name_def record_identifier_feature_name_def
  event_time_feature_name_def prefix_name_def data_file_key_def

text \<open>The prepared frame, column by column, in terms of the frame read from the CSV; and
  the frames of the \<^verbatim>\<open>load_feature_definitions\<close> and \<^verbatim>\<open>ingest\<close> calls of a run are prepared.\<close>

lemma prepared_frame:
  fixes env :: "('o, 'e) env"
  assumes "prepared L env df f"
  shows "nrows f = nrows df \<and>
     ''event_time'' \<in> set (map fst (columns f)) \<and>
     (\<forall>c\<in>set (columns f). fst c = ''event_time'' \<longrightarrow>
        snd c = \<lparr>dtype = Float64,
                 vals = replicate (nrows df) (PyObj (float64_of_int L (current_time_sec env)))\<rparr>) \<and>
     (''event_time'' \<notin> set (map fst (columns df)) \<longrightarrow>
        length (columns f) = Suc (length (columns df)) \<and>
        last (columns f) = (''event_time'', \<lparr>dtype = Float64,
                 vals = replicate (nrows df) (PyObj (float64_of_int L (current_time_sec env)))\<rparr>)) \<and>
     (\<forall>i<length (columns df). fst (columns df ! i) \<noteq> ''event_time'' \<longrightarrow>
        fst (columns f ! i) = fst (columns df ! i) \<and>
        (dtype (snd (columns df ! i)) = Object \<longrightarrow>
           snd (columns f ! i) = \<lparr>dtype = StringDtype,
              vals = map (\<lambda>v. PyStr (py_str L v)) (vals (snd (columns df ! i)))\<rparr>) \<and>
        (dtype (snd (columns df ! i)) \<noteq> Object \<longrightarrow> columns f ! i = columns df ! i))"
proof -
  let ?t = "current_time_sec env"
  let ?s = "\<lparr>dtype = Float64, vals = replicate (nrows df) (PyObj (float64_of_int L ?t))\<rparr>"
  from assms obtain df1 where c: "cast_object_to_string L df = (df1, None :: 'e error option)"
    and f: "f = set_event_time L ?t df1"
    by (auto simp: prepared_def)
  note cols = cast_object_to_string_columns[OF c]
  have f': "f = setitem df1 ''event_time'' ?s"
    by (simp add: f set_event_time_def event_time_feature_name_def event_time_series_eq cols(2))
  have labels: "map fst (columns df1) = map fst (columns df)"
    by (simp add: cols(1))
  have len: "length (columns df1) = length (columns df)"
    by (simp add: cols(1))
  have a: "nrows f = nrows df"
    by (simp add: f' setitem_nrows cols(2))
  have b: "''event_time'' \<in> set (map fst (columns f))"
    unfolding f' by (rule setitem_has_label)
  have c': "\<forall>c\<in>set (columns f). fst c = ''event_time'' \<longrightarrow> snd c = ?s"
    unfolding f' using setitem_labelled[of _ df1 "''event_time''" ?s] by blast
  have d: "''event_time'' \<notin> set (map fst (columns df)) \<longrightarrow>
        length (columns f) = Suc (length (columns df)) \<and> last (columns f) = (''event_time'', ?s)"
    unfolding f' using labels len by (simp add: setitem_absent)
  have e: "fst (columns f ! i) = fst (columns df ! i) \<and>
        (dtype (snd (columns df ! i)) = Object \<longrightarrow>
           snd (columns f ! i) = \<lparr>dtype = StringDtype,
              vals = map (\<lambda>v. PyStr (py_str L v)) (vals (snd (columns df ! i)))\<rparr>) \<and>
        (dtype (snd (columns df ! i)) \<noteq> Object \<longrightarrow> columns f ! i = columns df ! i)"
    if i: "i < length (columns df)" and ne: "fst (columns df ! i) \<noteq> ''event_time''" for i
  proof -
    have nth1: "columns df1 ! i = cast_col L UNIV (columns df ! i)"
      using i by (simp add: cols(1))
    then have "fst (columns df1 ! i) \<noteq> ''event_time''"
      using ne by simp
    with i len have "columns f ! i = columns df1 ! i"
      unfolding f' by (intro setitem_other) simp_all
    with nth1 show ?thesis
      by (simp add: cast_col_def string_form_def)
  qed
  from a b c' d e show ?thesis by blast
qed

lemma frames_prepared:
  fixes env :: "('o, 'e) env"
  assumes "notebook L env = Some (tr, res)"
  shows "(\<forall>name f. LoadFeatureDefinitions name f \<in> set tr \<longrightarrow>
            name = ''transactionfeaturegroup001'' \<and>
            (\<exists>body df. ReadCsv body \<in> set tr \<and> read_csv env body = Inr df \<and> prepared L env df f)) \<and>
         (\<forall>name f workers wait. Ingest name f workers wait \<in> set tr \<longrightarrow>
            (\<exists>body df. ReadCsv body \<in> set tr \<and> read_csv env body = Inr df \<and> prepared L env df f))"
  using assms
proof (cases rule: notebook_cases)
  case (register_failed b r body df df' e)
  then show ?thesis
    by (auto simp: trace_defs name_defs loaded_def)
next
  case (create_failed b r body df df' e)
  then show ?thesis
    by (auto simp: trace_defs name_defs registered_def loaded_def)
next
  case (poll_raised b r body df df' n e)
  then show ?thesis
    by (auto simp: trace_defs name_defs registered_def loaded_def)
next
  case (not_created b r body df df' n s)
  then show ?thesis
    by (auto simp: trace_defs name_defs registered_def loaded_def)
next
  case (describe_failed b r body df df' n e)
  then show ?thesis
    by (auto simp: trace_defs name_defs registered_def loaded_def)
next
  case (ingest_failed b r body df df' n d e)
  then show ?thesis
    by (auto simp: trace_defs name_defs registered_def loaded_def)
next
  case (lookup_failed b r body df df' n d e)
  then show ?thesis
    by (auto simp: trace_defs name_defs registered_def loaded_def)
next
  case (completed b r body df df' n d rec)
  then show ?thesis
    by (auto simp: trace_defs name_defs registered_def loaded_def)
qed (simp_all add: trace_defs)







lemma sorted_rank_replicate [simp]: "sorted (map rank (replicate n p))"
  by (simp add: sorted_iff_nth_mono)

lemma successively_polls [simp]: "successively follows (replicate n PollStatus)"
proof (induction n)
  case 0
  show ?case by simp
next
  case (Suc n)
  then show ?case by (cases n) (simp_all add: successively_Cons)
qed

lemma createdD:
  assumes "created env b r n"
  shows "creating_until env n"
    and "polled_status (describe env fd_feature_group_name) n = Inr (Some ''Created'')"
  using assms by (simp_all add: created_def)

lemma operations_to_create:
  "operations (events_to_create b r body df df') = [BuildSession, ResolveBucket, ResolveRole, FetchCsv, ParseCsv, LoadDefinitions, CreateGroup]"
  by (simp add: trace_defs)

lemma operations_to_created:
  "operations (events_to_created b r body df df' n) =
     [BuildSession, ResolveBucket, ResolveRole, FetchCsv, ParseCsv, LoadDefinitions, CreateGroup] @ replicate (Suc n) PollStatus"
  by (simp add: events_to_created_def operations_to_create created_message_def)

lemma successively_chain:
  assumes "successively follows (PollStatus # ops)"
  shows "successively follows
           ([BuildSession, ResolveBucket, ResolveRole, FetchCsv, ParseCsv, LoadDefinitions, CreateGroup] @ replicate (Suc n) PollStatus @ ops)"
proof -
  have "successively follows (replicate (Suc n) PollStatus @ ops)"
    using assms by (cases ops) (simp_all add: successively_append_iff successively_Cons del: replicate_Suc)
  then show ?thesis
    by (simp add: successively_Cons)
qed

lemma sorted_chain:
  assumes "sorted (map rank ops)" and "\<forall>p\<in>set ops. 7 \<le> rank p"
  shows "sorted (map rank ([BuildSession, ResolveBucket, ResolveRole, FetchCsv, ParseCsv, LoadDefinitions, CreateGroup] @ replicate m PollStatus @ ops))"
  using assms by (auto simp: sorted_append)

lemma polls_then:
  "replicate (Suc n) PollStatus @ PollStatus # ops = replicate (n + 2) PollStatus @ ops"
  by (simp add: replicate_append_same)

lemma order_after_created:
  assumes "operations tr = [BuildSession, ResolveBucket, ResolveRole, FetchCsv, ParseCsv, LoadDefinitions, CreateGroup] @ replicate (Suc n) PollStatus @ ops"
    and "successively follows (PollStatus # ops)"
    and "sorted (map rank ops)" and "\<forall>p\<in>set ops. 7 \<le> rank p"
  shows "sorted (map rank (operations tr)) \<and> successively follows (operations tr) \<and>
         (operations tr \<noteq> [] \<longrightarrow> hd (operations tr) = BuildSession)"
  using successively_chain[OF assms(2), of n] sorted_chain[OF assms(3,4), of "Suc n"]
  by (simp only: assms(1)) simp

lemma operations_in_order:
  fixes env :: "('o, 'e) env"
  assumes "notebook L env = Some (tr, res)"
  shows "sorted (map rank (operations tr)) \<and>
         successively follows (operations tr) \<and>
         (operations tr \<noteq> [] \<longrightarrow> hd (operations tr) = BuildSession) \<and>
         (\<forall>r. res = Inr r \<longrightarrow>
            (\<exists>m. operations tr =
               [BuildSession, ResolveBucket, ResolveRole, FetchCsv, ParseCsv, LoadDefinitions, CreateGroup] @ replicate (m + 2) PollStatus @
               [IngestRows, LookupRecord, ShowRecord])) \<and>
         (IngestRows \<in> set (operations tr) \<longrightarrow>
            (\<exists>n. (\<forall>j<n. polled_status (describe env ''transactionfeaturegroup001'') j = Inr (Some ''Creating'')) \<and>
                 polled_status (describe env ''transactionfeaturegroup001'') n = Inr (Some ''Created'')))"
  using assms
proof (cases rule: notebook_cases)
  case (poll_raised b r body df df' n e)
  have "operations tr = [BuildSession, ResolveBucket, ResolveRole, FetchCsv, ParseCsv, LoadDefinitions, CreateGroup] @ replicate (Suc n) PollStatus @ []"
    by (simp add: poll_raised(5) operations_to_create)
  from order_after_created[OF this] poll_raised(6) show ?thesis
    by (simp add: poll_raised(5) operations_to_create)
next
  case (not_created b r body df df' n s)
  have "operations tr = [BuildSession, ResolveBucket, ResolveRole, FetchCsv, ParseCsv, LoadDefinitions, CreateGroup] @ replicate (Suc n) PollStatus @ []"
    by (simp add: not_created(7) operations_to_create)
  from order_after_created[OF this] not_created(8) show ?thesis
    by (simp add: not_created(7) operations_to_create)
next
  case (describe_failed b r body df df' n e)
  have ops: "operations tr =
      [BuildSession, ResolveBucket, ResolveRole, FetchCsv, ParseCsv, LoadDefinitions, CreateGroup] @ replicate (Suc n) PollStatus @ [PollStatus]"
    by (simp add: describe_failed(4) operations_to_created)
  from order_after_created[OF ops] describe_failed(5) show ?thesis
    by (simp add: ops)
next
  case (ingest_failed b r body df df' n d e)
  have ops: "operations tr =
      [BuildSession, ResolveBucket, ResolveRole, FetchCsv, ParseCsv, LoadDefinitions, CreateGroup] @ replicate (Suc n) PollStatus @ [PollStatus, IngestRows]"
    by (simp add: ingest_failed(5) operations_to_created)
  have "\<exists>n. (\<forall>j<n. polled_status (describe env ''transactionfeaturegroup001'') j = Inr (Some ''Creating'')) \<and>
                 polled_status (describe env ''transactionfeaturegroup001'') n = Inr (Some ''Created'')"
    using createdD[OF ingest_failed(2)] by (auto simp: creating_until_def fd_feature_group_name_def)
  with order_after_created[OF ops] ingest_failed(6) show ?thesis
    by (simp add: successively_Cons)
next
  case (lookup_failed b r body df df' n d e)
  have ops: "operations tr =
      [BuildSession, ResolveBucket, ResolveRole, FetchCsv, ParseCsv, LoadDefinitions, CreateGroup] @ replicate (Suc n) PollStatus @
      [PollStatus, IngestRows, LookupRecord]"
    by (simp add: lookup_failed(6) operations_to_created)
  have "\<exists>n. (\<forall>j<n. polled_status (describe env ''transactionfeaturegroup001'') j = Inr (Some ''Creating'')) \<and>
                 polled_status (describe env ''transactionfeaturegroup001'') n = Inr (Some ''Created'')"
    using createdD[OF lookup_failed(2)] by (auto simp: creating_until_def fd_feature_group_name_def)
  with order_after_created[OF ops] lookup_failed(7) show ?thesis
    by (simp add: successively_Cons)
next
  case (completed b r body df df' n d rec)
  have ops: "operations tr =
      [BuildSession, ResolveBucket, ResolveRole, FetchCsv, ParseCsv, LoadDefinitions, CreateGroup] @ replicate (Suc n) PollStatus @
      [PollStatus, IngestRows, LookupRecord, ShowRecord]"
    by (simp add: completed(6) operations_to_created)
  then have pattern: "operations tr =
      [BuildSession, ResolveBucket, ResolveRole, FetchCsv, ParseCsv, LoadDefinitions, CreateGroup] @ replicate (n + 2) PollStatus @
      [IngestRows, LookupRecord, ShowRecord]"
    by (simp only: polls_then)
  have "\<exists>n. (\<forall>j<n. polled_status (describe env ''transactionfeaturegroup001'') j = Inr (Some ''Creating'')) \<and>
                 polled_status (describe env ''transactionfeaturegroup001'') n = Inr (Some ''Created'')"
    using createdD[OF completed(2)] by (auto simp: creating_until_def fd_feature_group_name_def)
  moreover have "\<exists>m. operations tr =
      [BuildSession, ResolveBucket, ResolveRole, FetchCsv, ParseCsv, LoadDefinitions, CreateGroup] @ replicate (m + 2) PollStatus @
      [IngestRows, LookupRecord, ShowRecord]"
    using pattern by (rule exI[where x = n])
  ultimately show ?thesis
    using order_after_created[OF ops] by (simp add: successively_Cons)
qed (simp_all add: trace_defs successively_Cons)

lemma wait_events_no_read [simp]:
  "ReadCsv body \<notin> set (wait_events name n)"
  using mem_wait_events[of "ReadCsv body" name n] by auto

lemma reads_before_feature_store:
  fixes env :: "('o, 'e) env"
  assumes "notebook L env = Some (tr, res)"
  shows "(\<forall>ev\<in>set (takeWhile (\<lambda>ev. operation_of ev \<noteq> Some ParseCsv) tr). \<not> is_feature_store_call ev) \<and>
         (\<forall>ev\<in>set (takeWhile (\<lambda>ev. \<not> is_ingest ev) tr). \<not> is_get_record ev) \<and>
         (\<forall>body. ReadCsv body \<in> set tr \<longrightarrow>
            (\<exists>bucket. default_bucket env = Inr bucket \<and>
               S3GetObject bucket ''data/fraud-detection/credit-dataset.csv'' \<in> set tr \<and>
               s3_get_object env bucket ''data/fraud-detection/credit-dataset.csv'' = Inr body))"
  using assms
  by (cases rule: notebook_cases)
     (simp_all add: trace_defs name_defs registered_def loaded_def
        takeWhile_wait_events takeWhile_wait_events_all)

text \<open>
  C5, as stated, fails: the CSV fetch is not the first externally visible operation, and
  calls answered by the managed services do precede the data read. To know the bucket it
  reads from, the notebook first calls \<^verbatim>\<open>feature_store_session.default_bucket()\<close>, and it
  calls \<^verbatim>\<open>get_execution_role()\<close>, before \<^verbatim>\<open>s3_client.get_object\<close>. In the run of the example
  environment these are the events 1 and 3, and the fetch is the event 5.
\<close>

theorem service_calls_before_read_counterexample:
  "notebook example_lib example_env = Some (example_trace, Inr [(''record_id'', ''100'')]) \<and>
   example_trace ! 1 = DefaultBucket \<and> is_managed_service_call (example_trace ! 1) \<and>
   example_trace ! 3 = GetExecutionRole \<and> is_managed_service_call (example_trace ! 3) \<and>
   example_trace ! 5 = S3GetObject ''bucket'' ''data/fraud-detection/credit-dataset.csv'' \<and>
   is_data_read (example_trace ! 5) \<and>
   hd (operations example_trace) \<noteq> FetchCsv"
  using example_run by (simp add: example_trace_def)

text \<open>
  C5, amended. In every run of the notebook that ends, the externally visible operations
  happen in the one order: build the session, resolve the default bucket, resolve the
  execution role, fetch the CSV from object storage, parse it, load the feature definitions,
  create the feature group, poll its status, ingest the rows, look the record up, display
  it. No operation comes before one of lower rank, each operation that happens comes
  directly after its predecessor in that order, and the first one is the building of the
  session. A run that completes performs all of them, with at least two polls. No call on
  the feature group or on the feature-store runtime precedes the parsing of the CSV, no
  lookup precedes the ingest call, the bytes parsed are the ones fetched from the default
  bucket, and the rows are ingested only when a poll has answered \<^verbatim>\<open>Created\<close> after polls
  that answered \<^verbatim>\<open>Creating\<close>.
\<close>

theorem notebook_order:
  fixes env :: "('o, 'e) env"
  assumes "notebook L env = Some (tr, res)"
  shows "sorted (map rank (operations tr)) \<and>
         successively follows (operations tr) \<and>
         (operations tr \<noteq> [] \<longrightarrow> hd (operations tr) = BuildSession) \<and>
         (\<forall>r. res = Inr r \<longrightarrow>
            (\<exists>m. operations tr =
               [BuildSession, ResolveBucket, ResolveRole, FetchCsv, ParseCsv, LoadDefinitions, CreateGroup] @ replicate (m + 2) PollStatus @
               [IngestRows, LookupRecord, ShowRecord])) \<and>
         (IngestRows \<in> set (operations tr) \<longrightarrow>
            (\<exists>n. (\<forall>j<n. polled_status (describe env ''transactionfeaturegroup001'') j = Inr (Some ''Creating'')) \<and>
                 polled_status (describe env ''transactionfeaturegroup001'') n = Inr (Some ''Created''))) \<and>
         (\<forall>ev\<in>set (takeWhile (\<lambda>ev. operation_of ev \<noteq> Some ParseCsv) tr). \<not> is_feature_store_call ev) \<and>
         (\<forall>ev\<in>set (takeWhile (\<lambda>ev. \<not> is_ingest ev) tr). \<not> is_get_record ev) \<and>
         (\<forall>body. ReadCsv body \<in> set tr \<longrightarrow>
            (\<exists>bucket. default_bucket env = Inr bucket \<and>
               S3GetObject bucket ''data/fraud-detection/credit-dataset.csv'' \<in> set tr \<and>
               s3_get_object env bucket ''data/fraud-detection/credit-dataset.csv'' = Inr body))"
  using operations_in_order[OF assms] reads_before_feature_store[OF assms]
  by (intro conjI) (elim conjE, assumption)+

theorem notebook_order_witness:
  "notebook example_lib example_env = Some (example_trace, Inr [(''record_id'', ''100'')]) \<and>
   sorted (map rank (operations example_trace)) \<and>
   successively follows (operations example_trace) \<and>
   hd (operations example_trace) = BuildSession \<and>
   (\<exists>m. operations example_trace =
      [BuildSession, ResolveBucket, ResolveRole, FetchCsv, ParseCsv, LoadDefinitions, CreateGroup] @
      replicate (m + 2) PollStatus @ [IngestRows, LookupRecord, ShowRecord]) \<and>
   IngestRows \<in> set (operations example_trace) \<and>
   polled_status (describe example_env ''transactionfeaturegroup001'') 2 = Inr (Some ''Created'') \<and>
   ReadCsv ''csv'' \<in> set example_trace \<and>
   default_bucket example_env = Inr ''bucket'' \<and>
   s3_get_object example_env ''bucket'' ''data/fraud-detection/credit-dataset.csv'' = Inr ''csv'' \<and>
   filter is_feature_store_call
     (takeWhile (\<lambda>ev. operation_of ev \<noteq> Some ParseCsv) example_trace) = [] \<and>
   filter is_get_record (takeWhile (\<lambda>ev. \<not> is_ingest ev) example_trace) = []"
proof -
  have ne: "operations example_trace \<noteq> []"
    by (simp add: example_trace_def)
  have order: "sorted (map rank (operations example_trace)) \<and>
   successively follows (operations example_trace) \<and>
   hd (operations example_trace) = BuildSession \<and>
   (\<exists>m. operations example_trace =
      [BuildSession, ResolveBucket, ResolveRole, FetchCsv, ParseCsv, LoadDefinitions, CreateGroup] @
      replicate (m + 2) PollStatus @ [IngestRows, LookupRecord, ShowRecord])"
    using notebook_order[OF example_run] ne by simp
  have ing: "IngestRows \<in> set (operations example_trace)"
    by (simp add: example_trace_def)
  have polled: "polled_status (describe example_env ''transactionfeaturegroup001'') 2 = Inr (Some ''Created'')"
    using example_describe_polls[of "''Created''"] by (simp add: example_env_def)
  have rd: "ReadCsv ''csv'' \<in> set example_trace"
    "default_bucket example_env = Inr ''bucket''"
    "s3_get_object example_env ''bucket'' ''data/fraud-detection/credit-dataset.csv'' = Inr ''csv''"
    by (simp_all add: example_trace_def example_env_def)
  have before: "filter is_feature_store_call
     (takeWhile (\<lambda>ev. operation_of ev \<noteq> Some ParseCsv) example_trace) = []"
    "filter is_get_record (takeWhile (\<lambda>ev. \<not> is_ingest ev) example_trace) = []"
    by (simp_all add: example_trace_def)
  show ?thesis
    by (intro conjI) (insert example_run order ing polled rd before, (elim conjE, assumption)+)
qed






















section \<open>The event time of the ingested records\<close>

text \<open>
  C9, as the claim states it, fails: when the frame already has a column labelled
  \<open>event_time\<close> (as the notebook's own dataset has), the assignment replaces that column, so
  not every pre-existing column is unchanged.
\<close>

theorem event_time_overwrites_counterexample:
  "columns (set_event_time example_lib 1629776605 example_frame) ! 2 \<noteq> columns example_frame ! 2"
  by (simp add: set_event_time_def setitem_def example_frame_def event_time_feature_name_def
      event_time_series_def)

text \<open>
  C9, amended. After the assignment the frame has a column labelled \<open>event_time\<close>; every
  column under that label has dtype float64 and holds, in each of its rows, the float64 of
  the one integer \<open>t\<close>, and its length is the frame's row count. Every column that was in
  the frame under another label is unchanged, at its position, and when no column was
  labelled \<open>event_time\<close> before, the new column is appended as the last one. So in every run
  of the notebook that ends, the frame of each \<^verbatim>\<open>ingest\<close> call has a column labelled
  \<open>event_time\<close>, and every such column holds in each row the float64 of the one clock
  reading of the run: all records ingested in one run share one event time.
\<close>

theorem event_time_column:
  fixes env :: "('o, 'e) env"
  shows "nrows (set_event_time L t df) = nrows df \<and>
   ''event_time'' \<in> set (map fst (columns (set_event_time L t df))) \<and>
   (\<forall>c \<in> set (columns (set_event_time L t df)). fst c = ''event_time'' \<longrightarrow>
      dtype (snd c) = Float64 \<and>
      vals (snd c) = replicate (nrows df) (PyObj (float64_of_int L t)) \<and>
      length (vals (snd c)) = nrows df) \<and>
   (\<forall>i < length (columns df). fst (columns df ! i) \<noteq> ''event_time'' \<longrightarrow>
      columns (set_event_time L t df) ! i = columns df ! i) \<and>
   (''event_time'' \<notin> set (map fst (columns df)) \<longrightarrow>
      columns (set_event_time L t df) =
        columns df @ [(''event_time'',
          \<lparr>dtype = Float64, vals = replicate (nrows df) (PyObj (float64_of_int L t))\<rparr>)]) \<and>
   (notebook L env = Some (tr, res) \<longrightarrow>
      (\<forall>name f workers wait. Ingest name f workers wait \<in> set tr \<longrightarrow>
         ''event_time'' \<in> set (map fst (columns f)) \<and>
         (\<forall>c \<in> set (columns f). fst c = ''event_time'' \<longrightarrow>
            dtype (snd c) = Float64 \<and>
            vals (snd c) = replicate (nrows f) (PyObj (float64_of_int L (current_time_sec env))) \<and>
            length (vals (snd c)) = nrows f)))"
proof -
  let ?s = "event_time_series L t (nrows df)"
  have df': "set_event_time L t df = setitem df ''event_time'' ?s"
    by (simp add: set_event_time_def event_time_feature_name_def)
  have "\<And>c. c \<in> set (columns (setitem df ''event_time'' ?s)) \<Longrightarrow> fst c = ''event_time'' \<Longrightarrow>
      dtype (snd c) = Float64 \<and>
      vals (snd c) = replicate (nrows df) (PyObj (float64_of_int L t)) \<and>
      length (vals (snd c)) = nrows df"
    using setitem_labelled[of _ df "''event_time''" ?s]
    by (simp add: event_time_series_eq)
  moreover have "\<And>i. i < length (columns df) \<Longrightarrow> fst (columns df ! i) \<noteq> ''event_time'' \<Longrightarrow>
      columns (setitem df ''event_time'' ?s) ! i = columns df ! i"
    by (rule setitem_other)
  ultimately have fn: "nrows (set_event_time L t df) = nrows df \<and>
   ''event_time'' \<in> set (map fst (columns (set_event_time L t df))) \<and>
   (\<forall>c \<in> set (columns (set_event_time L t df)). fst c = ''event_time'' \<longrightarrow>
      dtype (snd c) = Float64 \<and>
      vals (snd c) = replicate (nrows df) (PyObj (float64_of_int L t)) \<and>
      length (vals (snd c)) = nrows df) \<and>
   (\<forall>i < length (columns df). fst (columns df ! i) \<noteq> ''event_time'' \<longrightarrow>
      columns (set_event_time L t df) ! i = columns df ! i) \<and>
   (''event_time'' \<notin> set (map fst (columns df)) \<longrightarrow>
      columns (set_event_time L t df) =
        columns df @ [(''event_time'',
          \<lparr>dtype = Float64, vals = replicate (nrows df) (PyObj (float64_of_int L t))\<rparr>)])"
    unfolding df' using setitem_has_label[of "''event_time''" df ?s]
    by (simp add: setitem_nrows setitem_absent event_time_series_eq)
  have run: "''event_time'' \<in> set (map fst (columns f)) \<and>
         (\<forall>c \<in> set (columns f). fst c = ''event_time'' \<longrightarrow>
            dtype (snd c) = Float64 \<and>
            vals (snd c) = replicate (nrows f) (PyObj (float64_of_int L (current_time_sec env))) \<and>
            length (vals (snd c)) = nrows f)"
    if nb: "notebook L env = Some (tr, res)" and mem: "Ingest name f workers wait \<in> set tr"
    for name f workers wait
  proof -
    from frames_prepared[OF nb, THEN conjunct2] mem
    obtain body df0 where pr: "prepared L env df0 f"
      by (elim allE[of _ name] allE[of _ f] allE[of _ workers] allE[of _ wait] impE)
         (assumption, elim conjE exE)
    note p = prepared_frame[OF pr]
    note n = p[THEN conjunct1] and l = p[THEN conjunct2, THEN conjunct1]
      and c = p[THEN conjunct2, THEN conjunct2, THEN conjunct1]
    from c n l show ?thesis by simp
  qed
  have run': "notebook L env = Some (tr, res) \<longrightarrow>
      (\<forall>name f workers wait. Ingest name f workers wait \<in> set tr \<longrightarrow>
         ''event_time'' \<in> set (map fst (columns f)) \<and>
         (\<forall>c \<in> set (columns f). fst c = ''event_time'' \<longrightarrow>
            dtype (snd c) = Float64 \<and>
            vals (snd c) = replicate (nrows f) (PyObj (float64_of_int L (current_time_sec env))) \<and>
            length (vals (snd c)) = nrows f))"
    by (intro impI allI, rule run)
  show ?thesis
    using fn run' by (intro conjI) (elim conjE, assumption)+
qed

theorem event_time_column_witness:
  "nrows (set_event_time example_lib 1629776605 example_small_frame) = 2 \<and>
   columns (set_event_time example_lib 1629776605 example_small_frame) =
     columns example_small_frame @
       [(''event_time'', \<lparr>dtype = Float64, vals = [PyObj (OFloat 1629776605), PyObj (OFloat 1629776605)]\<rparr>)] \<and>
   columns (set_event_time example_lib 1629776605 example_small_frame) ! 1 = columns example_small_frame ! 1 \<and>
   notebook example_lib example_env = Some (example_trace, Inr [(''record_id'', ''100'')]) \<and>
   current_time_sec example_env = 1629776605 \<and>
   Ingest ''transactionfeaturegroup001'' example_prepared 3 True \<in> set example_trace \<and>
   nrows example_prepared = 2 \<and>
   ''event_time'' \<in> set (map fst (columns example_prepared)) \<and>
   filter (\<lambda>c. fst c = ''event_time'') (columns example_prepared) =
     [(''event_time'', \<lparr>dtype = Float64, vals = [PyObj (OFloat 1629776605), PyObj (OFloat 1629776605)]\<rparr>)]"
proof -
  have absent: "''event_time'' \<notin> set (map fst (columns example_small_frame))"
    by (simp add: example_small_frame_def)
  have i: "1 < length (columns example_small_frame)"
    and other: "fst (columns example_small_frame ! 1) \<noteq> ''event_time''"
    by (simp_all add: example_small_frame_def)
  have mem: "Ingest ''transactionfeaturegroup001'' example_prepared 3 True \<in> set example_trace"
    by (simp add: example_trace_def)
  note inst = event_time_column[of example_lib 1629776605 example_small_frame example_env example_trace
      "Inr [(''record_id'', ''100'')]"]
  have fn: "nrows (set_event_time example_lib 1629776605 example_small_frame) = 2 \<and>
   columns (set_event_time example_lib 1629776605 example_small_frame) =
     columns example_small_frame @
       [(''event_time'', \<lparr>dtype = Float64, vals = [PyObj (OFloat 1629776605), PyObj (OFloat 1629776605)]\<rparr>)] \<and>
   columns (set_event_time example_lib 1629776605 example_small_frame) ! 1 = columns example_small_frame ! 1"
    using inst absent i other
    by (simp add: example_small_frame_def example_lib_def numeral_2_eq_2)
  note run = inst[THEN conjunct2, THEN conjunct2, THEN conjunct2, THEN conjunct2, THEN conjunct2,
      THEN mp, OF example_run, THEN spec, THEN spec, THEN spec, THEN spec, THEN mp, OF mem]
  have lbl: "''event_time'' \<in> set (map fst (columns example_prepared))"
    by (rule run[THEN conjunct1])
  have rest: "current_time_sec example_env = 1629776605" "nrows example_prepared = 2"
    "filter (\<lambda>c. fst c = ''event_time'') (columns example_prepared) =
     [(''event_time'', \<lparr>dtype = Float64, vals = [PyObj (OFloat 1629776605), PyObj (OFloat 1629776605)]\<rparr>)]"
    by (simp_all add: example_env_def example_prepared_def)
  show ?thesis
    by (intro conjI) (insert fn example_run mem lbl rest, (elim conjE, assumption)+)
qed


end
